theory Spec2Isabelle
  imports Complex_Main "HOL-Library.Sublist"
begin

chapter \<open>The model of the source\<close>

section \<open>Strings and characters of the JavaScript source\<close>

text \<open>
  Messages, vocabulary entries and record keys are JavaScript strings. They are modelled
  as \<open>string\<close> (lists of characters) and the model covers ASCII text: the character
  classes below are the ASCII ones of the regular expressions in the source
  (\<open>\w\<close> is \<open>[A-Za-z0-9_]\<close>, \<open>\s\<close> is tab, line feed, vertical tab, form feed,
  carriage return and space), and \<open>toLowerCase\<close> maps \<open>A-Z\<close> to \<open>a-z\<close>.
\<close>

definition lower_chars :: string where
  "lower_chars = ''abcdefghijklmnopqrstuvwxyz''"

definition upper_chars :: string where
  "upper_chars = ''ABCDEFGHIJKLMNOPQRSTUVWXYZ''"

definition digit_chars :: string where
  "digit_chars = ''0123456789''"

definition is_lower :: "char \<Rightarrow> bool" where
  "is_lower c = (c \<in> set lower_chars)"

definition is_upper :: "char \<Rightarrow> bool" where
  "is_upper c = (c \<in> set upper_chars)"

definition is_digit :: "char \<Rightarrow> bool" where
  "is_digit c = (c \<in> set digit_chars)"

definition is_word :: "char \<Rightarrow> bool" where
  \<comment> \<open>the class \<open>\w\<close>\<close>
  "is_word c = (is_lower c \<or> is_upper c \<or> is_digit c \<or> c = CHR ''_'')"

definition is_space :: "char \<Rightarrow> bool" where
  \<comment> \<open>the class \<open>\s\<close>, and the characters \<open>trim\<close> removes\<close>
  "is_space c = (c \<in> set [CHR 0x09, CHR 0x0A, CHR 0x0B, CHR 0x0C, CHR 0x0D, CHR '' ''])"

definition lower_char :: "char \<Rightarrow> char" where
  "lower_char c = (case map_of (zip upper_chars lower_chars) c of Some d \<Rightarrow> d | None \<Rightarrow> c)"

definition toLowerCase :: "string \<Rightarrow> string" where
  "toLowerCase s = map lower_char s"

definition trim :: "string \<Rightarrow> string" where
  "trim s = rev (dropWhile is_space (rev (dropWhile is_space s)))"

definition str_includes :: "string \<Rightarrow> string \<Rightarrow> bool" where
  \<comment> \<open>\<open>s.includes(t)\<close>: \<open>t\<close> occurs in \<open>s\<close> as a contiguous substring\<close>
  "str_includes s t = sublist t s"

definition startsWith :: "string \<Rightarrow> string \<Rightarrow> bool" where
  "startsWith s t = prefix t s"

definition endsWith :: "string \<Rightarrow> string \<Rightarrow> bool" where
  "endsWith s t = suffix t s"

section \<open>Regular expressions of the source\<close>

text \<open>
  The source tests strings with regular-expression literals. They are kept as data and run
  by a small matcher. A position is the character before it (if any) and the rest of the
  string; \<open>ends r p\<close> lists the positions where a match of \<open>r\<close> that starts at \<open>p\<close>
  can end. \<open>rx_test r s\<close> is \<open>r.test(s)\<close>: some match starts somewhere in \<open>s\<close>.
\<close>

datatype rx =
    Lit string          \<comment> \<open>a literal string\<close>
  | Dot                 \<comment> \<open>\<open>.\<close>: any character but a line terminator\<close>
  | Cls string          \<comment> \<open>\<open>[...]\<close>: one of the listed characters\<close>
  | Spc                 \<comment> \<open>\<open>\s\<close>\<close>
  | Seq rx rx
  | Alt rx rx
  | Opt rx              \<comment> \<open>\<open>r?\<close>\<close>
  | Star rx             \<comment> \<open>\<open>r*\<close>\<close>
  | Plus rx             \<comment> \<open>\<open>r+\<close>\<close>
  | Bnd                 \<comment> \<open>\<open>\b\<close>\<close>
  | Bol                 \<comment> \<open>\<open>^\<close>\<close>
  | Eol                 \<comment> \<open>\<open>$\<close>\<close>

type_synonym pos = "char option \<times> string"

fun lit_ends :: "string \<Rightarrow> pos \<Rightarrow> pos list" where
  "lit_ends [] p = [p]"
| "lit_ends (c # cs) (pr, []) = []"
| "lit_ends (c # cs) (pr, d # ds) = (if c = d then lit_ends cs (Some d, ds) else [])"

fun one_char :: "(char \<Rightarrow> bool) \<Rightarrow> pos \<Rightarrow> pos list" where
  "one_char P (pr, []) = []"
| "one_char P (pr, d # ds) = (if P d then [(Some d, ds)] else [])"

definition word_before :: "pos \<Rightarrow> bool" where
  "word_before p = (case fst p of None \<Rightarrow> False | Some c \<Rightarrow> is_word c)"

definition word_after :: "pos \<Rightarrow> bool" where
  "word_after p = (case snd p of [] \<Rightarrow> False | c # _ \<Rightarrow> is_word c)"

fun star_ends :: "nat \<Rightarrow> (pos \<Rightarrow> pos list) \<Rightarrow> pos \<Rightarrow> pos list" where
  \<comment> \<open>zero or more rounds of \<open>f\<close>; a round that consumes nothing adds no new position,
      so as many rounds as characters are left suffice\<close>
  "star_ends 0 f p = [p]"
| "star_ends (Suc n) f p =
     p # concat (map (star_ends n f) (filter (\<lambda>q. length (snd q) < length (snd p)) (f p)))"

fun ends :: "rx \<Rightarrow> pos \<Rightarrow> pos list" where
  "ends (Lit s) p = lit_ends s p"
| "ends Dot p = one_char (\<lambda>c. c \<noteq> CHR 0x0A \<and> c \<noteq> CHR 0x0D) p"
| "ends (Cls cs) p = one_char (\<lambda>c. c \<in> set cs) p"
| "ends Spc p = one_char is_space p"
| "ends (Seq a b) p = concat (map (ends b) (ends a p))"
| "ends (Alt a b) p = ends a p @ ends b p"
| "ends (Opt a) p = p # ends a p"
| "ends (Star a) p = star_ends (length (snd p)) (ends a) p"
| "ends (Plus a) p = concat (map (\<lambda>q. star_ends (length (snd q)) (ends a) q) (ends a p))"
| "ends Bnd p = (if word_before p \<noteq> word_after p then [p] else [])"
| "ends Bol p = (if fst p = None then [p] else [])"
| "ends Eol p = (if snd p = [] then [p] else [])"

fun test_from :: "rx \<Rightarrow> char option \<Rightarrow> string \<Rightarrow> bool" where
  "test_from r pr [] = (ends r (pr, []) \<noteq> [])"
| "test_from r pr (c # cs) = (if ends r (pr, c # cs) = [] then test_from r (Some c) cs else True)"

definition rx_test :: "rx \<Rightarrow> string \<Rightarrow> bool" where
  "rx_test r s = test_from r None s"

fun alts :: "rx list \<Rightarrow> rx" where
  \<comment> \<open>\<open>r1|r2|...|rn\<close>\<close>
  "alts [] = Lit []"
| "alts [r] = r"
| "alts (r # rs) = Alt r (alts rs)"

fun seqs :: "rx list \<Rightarrow> rx" where
  \<comment> \<open>\<open>r1 r2 ... rn\<close>\<close>
  "seqs [] = Lit []"
| "seqs [r] = r"
| "seqs (r # rs) = Seq r (seqs rs)"

section \<open>Query parser (parseMessage)\<close>

text \<open>
  \<open>normalizeMessage\<close>:
  \<^verbatim>\<open>String(message).toLowerCase().replace(/[^\w\s]/g, " ").replace(/\s+/g, " ").trim()\<close>
\<close>

definition strip_punct :: "string \<Rightarrow> string" where
  \<comment> \<open>\<open>.replace(/[^\w\s]/g, " ")\<close>\<close>
  "strip_punct s = map (\<lambda>c. if is_word c \<or> is_space c then c else CHR '' '') s"

function collapse_ws :: "string \<Rightarrow> string" where
  \<comment> \<open>\<open>.replace(/\s+/g, " ")\<close>: every maximal run of white space becomes one space\<close>
  "collapse_ws [] = []"
| "collapse_ws (c # cs) =
     (if is_space c then CHR '' '' # collapse_ws (dropWhile is_space cs)
      else c # collapse_ws cs)"
  by pat_completeness auto
termination
  by (relation "measure length") (auto simp: length_dropWhile_le less_Suc_eq_le)

definition normalizeMessage :: "string \<Rightarrow> string" where
  "normalizeMessage message = trim (collapse_ws (strip_punct (toLowerCase message)))"

record parsed =
  verb :: "string option"
  entities :: "string list"
  normalized :: string

text \<open>The engine's vocabulary cache: \<open>this.industryTerms\<close> and \<open>this.cities\<close>.\<close>

record engine =
  industryTerms :: "string list"
  cities :: "string list"

text \<open>
  \<open>parseMessage\<close> as the source has it:
  \<^verbatim>\<open>
    const out = { verb: null, entities: [], normalized: "" };
    const normalized = this.normalizeMessage(message);
    if (!normalized) out.normalized = normalized;
  return out;
  \<close>
  The \<open>if\<close> has no braces, so \<open>return out\<close> is not part of it and runs for every
  message. The statements after it (verb detection, the scan of the vocabulary, the
  hint tokens) are never executed; \<open>parseMessage_unreached\<close> below is that remainder.
\<close>

definition parseMessage :: "engine \<Rightarrow> string \<Rightarrow> parsed" where
  "parseMessage eng message =
     (let out = \<lparr>verb = None, entities = [], normalized = ''''\<rparr>;
          nrm = normalizeMessage message;
          out = (if nrm = '''' then out\<lparr>normalized := nrm\<rparr> else out)
      in out)"

definition VERBS :: "string list" where
  "VERBS = [''tell me about'', ''what time is'', ''when is'', ''where is'', ''who is'', ''what is'']"

definition push_new :: "string \<Rightarrow> string list \<Rightarrow> string \<Rightarrow> string list" where
  \<comment> \<open>\<open>if (normalized.includes(c) && !out.entities.includes(c)) out.entities.push(c)\<close>\<close>
  "push_new nrm ents c = (if str_includes nrm c \<and> c \<notin> set ents then ents @ [c] else ents)"

definition parseMessage_unreached :: "engine \<Rightarrow> string \<Rightarrow> parsed" where
  \<comment> \<open>the statements of \<open>parseMessage\<close> after the first \<open>return out\<close>, applied to the
      normalized text\<close>
  "parseMessage_unreached eng nrm =
     (let v = find (\<lambda>v. startsWith nrm v) VERBS;
          candidates = filter (\<lambda>c. c \<noteq> '''') (industryTerms eng @ cities eng);
          ents = foldl (push_new nrm) [] candidates;
          ents = foldl (push_new nrm) ents [''flight'', ''flights'', ''show'']
      in \<lparr>verb = v, entities = ents, normalized = nrm\<rparr>)"

section \<open>Field resolver (findFieldForTerm)\<close>

text \<open>
  A show record is a JavaScript object read from a table. It is modelled by its entries
  in the order \<open>Object.keys\<close> lists them; a value is a string, or \<open>None\<close> for
  \<open>null\<close>/\<open>undefined\<close>. \<open>get_field sh key\<close> is \<open>show[key]\<close>.
\<close>

type_synonym showrec = "(string \<times> string option) list"

definition object_keys :: "showrec \<Rightarrow> string list" where
  "object_keys sh = map fst sh"

definition get_field :: "showrec \<Rightarrow> string \<Rightarrow> string option" where
  "get_field sh key = (case map_of sh key of Some v \<Rightarrow> v | None \<Rightarrow> None)"

definition norm :: "string \<Rightarrow> string" where
  \<comment> \<open>\<open>String(s).toLowerCase().replace(/[^a-z0-9]/g, '')\<close>\<close>
  "norm s = filter (\<lambda>c. is_lower c \<or> is_digit c) (toLowerCase s)"

definition rx_time_key :: rx where
  \<comment> \<open>\<open>/time$|time\b/\<close>\<close>
  "rx_time_key = Alt (Seq (Lit ''time'') Eol) (Seq (Lit ''time'') Bnd)"

definition isTimeKey :: "string \<Rightarrow> bool" where
  "isTimeKey key =
     (rx_test rx_time_key key \<or> endsWith (norm key) ''time'' \<or> str_includes (norm key) ''time'')"

definition isVenueKey :: "string \<Rightarrow> bool" where
  "isVenueKey key =
     list_ex (\<lambda>v. str_includes (norm key) (norm v))
       [''venue'', ''venue_name'', ''address'', ''location'']"

definition isCityKey :: "string \<Rightarrow> bool" where
  "isCityKey key = (norm key = ''city'' \<or> endsWith (norm key) ''city'')"

definition isStateKey :: "string \<Rightarrow> bool" where
  "isStateKey key = (norm key = ''state'' \<or> norm key = ''region'')"

definition isCountryKey :: "string \<Rightarrow> bool" where
  "isCountryKey key = (norm key = ''country'')"

definition locationLike :: "string option \<Rightarrow> bool" where
  "locationLike vb = (vb = Some ''where is'')"

definition timeLike :: "string option \<Rightarrow> bool" where
  "timeLike vb = (vb = Some ''what time is'' \<or> vb = Some ''when is'')"

definition key_score :: "string \<Rightarrow> string option \<Rightarrow> string \<Rightarrow> nat" where
  \<comment> \<open>the value of \<open>score\<close> at the end of one round of the loop over the keys\<close>
  "key_score nTerm vb key =
     (if str_includes (norm key) nTerm then 5 else 0)
     + (if isTimeKey key then 3 else 0)
     + (if locationLike vb \<and> (isVenueKey key \<or> isCityKey key \<or> isStateKey key \<or> isCountryKey key)
        then 4 else 0)
     + (if timeLike vb \<and> isTimeKey key then 4 else 0)"

record hit =
  hit_k :: string
  hit_score :: nat
  hit_val :: string

definition scored_entry :: "showrec \<Rightarrow> string \<Rightarrow> string option \<Rightarrow> string \<Rightarrow> hit list" where
  \<comment> \<open>\<open>if (val != null && String(val).trim() !== '' && score > 0) scored.push({ k, score, val })\<close>\<close>
  "scored_entry sh nTerm vb key =
     (case get_field sh key of
        None \<Rightarrow> []
      | Some v \<Rightarrow>
          if trim v \<noteq> '''' \<and> 0 < key_score nTerm vb key
          then [\<lparr>hit_k = key, hit_score = key_score nTerm vb key, hit_val = v\<rparr>]
          else [])"

definition scored :: "showrec \<Rightarrow> string \<Rightarrow> string option \<Rightarrow> hit list" where
  \<comment> \<open>the array \<open>scored\<close> after the loop \<open>for (const k of keys)\<close>\<close>
  "scored sh nTerm vb = concat (map (scored_entry sh nTerm vb) (object_keys sh))"

definition prefs :: "string list" where
  "prefs = [''soundcheck_time'', ''load_in_time'', ''doors_time'', ''show_time'']"

definition pref_present :: "showrec \<Rightarrow> string \<Rightarrow> bool" where
  \<comment> \<open>\<open>Object.prototype.hasOwnProperty.call(show, p) && String(show[p] || "").trim() !== ""\<close>\<close>
  "pref_present sh p =
     (p \<in> set (object_keys sh)
      \<and> trim (case get_field sh p of None \<Rightarrow> '''' | Some v \<Rightarrow> v) \<noteq> '''')"

definition time_fallback :: "showrec \<Rightarrow> hit option" where
  "time_fallback sh =
     (case find (pref_present sh) prefs of
        None \<Rightarrow> None
      | Some p \<Rightarrow>
          Some \<lparr>hit_k = p, hit_score = 1,
                hit_val = (case get_field sh p of None \<Rightarrow> '''' | Some v \<Rightarrow> v)\<rparr>)"

definition by_score_desc :: "hit list \<Rightarrow> hit list" where
  \<comment> \<open>\<open>scored.sort((a, b) => b.score - a.score)\<close>; \<open>Array.prototype.sort\<close> is stable\<close>
  "by_score_desc hs = sort_key (\<lambda>h. - int (hit_score h)) hs"

definition findFieldForTerm :: "showrec option \<Rightarrow> string option \<Rightarrow> string option \<Rightarrow> hit option" where
  \<comment> \<open>arguments \<open>show\<close>, \<open>term\<close>, \<open>verb\<close>; \<open>None\<close> is \<open>null\<close>\<close>
  "findFieldForTerm sho trm vb =
     (case sho of
        None \<Rightarrow> None
      | Some sh \<Rightarrow>
         (case trm of
            None \<Rightarrow> None
          | Some t \<Rightarrow>
              if t = '''' then None
              else
                (let sc = scored sh (norm t) vb in
                 if sc = [] then (if timeLike vb then time_fallback sh else None)
                 else Some (hd (by_score_desc sc)))))"

section \<open>Intent classifier (matchIntent)\<close>

text \<open>
  A thrown JavaScript exception is a value: its constructor name and its message.
  A call that may throw returns \<open>js_error + 'a\<close>, with \<open>Inl\<close> for the exception.
\<close>

datatype js_error = JsError string string

definition error_message :: "js_error \<Rightarrow> string" where
  \<comment> \<open>\<open>String(e?.message || e)\<close>: the message, or \<open>Name: \<close> and the empty message\<close>
  "error_message e =
     (case e of JsError name msg \<Rightarrow> if msg \<noteq> '''' then msg else name)"

record intent =
  intent_type :: "string option"
  term_id :: "string option"
  confidence :: "rat option"
  intent_entities :: "(string \<times> string) list"
  original_query :: "string option"
  error_text :: "string option"

record term_hit =
  hit_term_id :: string

text \<open>
  \<open>matchIntent\<close> imports \<open>cleanName\<close>, \<open>normalize\<close>, \<open>lookupExact\<close> and
  \<open>lookupInSentence\<close> from modules that are not part of the sources at hand. They are
  parameters of the model, gathered in a record; each may return or throw.
\<close>

record matcher =
  cleanName :: "string \<Rightarrow> js_error + string"
  normalize_fn :: "string \<Rightarrow> js_error + string"
  lookupExact :: "string \<Rightarrow> js_error + term_hit option"
  lookupInSentence :: "string \<Rightarrow> js_error + term_hit option"

definition rx_schedule :: rx where
  \<comment> \<open>\<open>/schedule|showtime|what time.*show/\<close>\<close>
  "rx_schedule =
     alts [Lit ''schedule'', Lit ''showtime'', seqs [Lit ''what time'', Star Dot, Lit ''show'']]"

definition rx_production :: rx where
  \<comment> \<open>\<open>/load in|load-out|sound.?check|curfew|setlist/\<close>\<close>
  "rx_production =
     alts [Lit ''load in'', Lit ''load-out'', seqs [Lit ''sound'', Opt Dot, Lit ''check''],
           Lit ''curfew'', Lit ''setlist'']"

definition rx_travel :: rx where
  \<comment> \<open>\<open>/flight|airport|travel|hotel|check[- ]?in|check[- ]?out/\<close>\<close>
  "rx_travel =
     alts [Lit ''flight'', Lit ''airport'', Lit ''travel'', Lit ''hotel'',
           seqs [Lit ''check'', Opt (Cls ''- ''), Lit ''in''],
           seqs [Lit ''check'', Opt (Cls ''- ''), Lit ''out'']]"

definition rx_merch :: rx where
  \<comment> \<open>\<open>/merch|merchandise|t[- ]?shirts?|hoodies?|seller|stand/\<close>\<close>
  "rx_merch =
     alts [Lit ''merch'', Lit ''merchandise'',
           seqs [Lit ''t'', Opt (Cls ''- ''), Lit ''shirt'', Opt (Lit ''s'')],
           seqs [Lit ''hoodie'', Opt (Lit ''s'')], Lit ''seller'', Lit ''stand'']"

definition rx_financial :: rx where
  \<comment> \<open>\<open>/budget|costs?|expenses?|financial|accounting|invoice|payment/\<close>\<close>
  "rx_financial =
     alts [Lit ''budget'', seqs [Lit ''cost'', Opt (Lit ''s'')],
           seqs [Lit ''expense'', Opt (Lit ''s'')], Lit ''financial'', Lit ''accounting'',
           Lit ''invoice'', Lit ''payment'']"

definition rx_media :: rx where
  \<comment> \<open>\<open>/press|media|interview|photographer|photo\s?pass|press commitments?/\<close>\<close>
  "rx_media =
     alts [Lit ''press'', Lit ''media'', Lit ''interview'', Lit ''photographer'',
           seqs [Lit ''photo'', Opt Spc, Lit ''pass''],
           seqs [Lit ''press commitment'', Opt (Lit ''s'')]]"

definition rx_help :: rx where
  \<comment> \<open>\<open>/^(help|what can i ask|what can you do)/\<close>\<close>
  "rx_help = Seq Bol (alts [Lit ''help'', Lit ''what can i ask'', Lit ''what can you do''])"

definition default_intent :: intent where
  \<comment> \<open>\<open>{ intent_type: null, confidence: 0, entities: {} }\<close>\<close>
  "default_intent =
     \<lparr>intent_type = None, term_id = None, confidence = Some 0, intent_entities = [],
      original_query = None, error_text = None\<rparr>"

definition rule_intent :: "string \<Rightarrow> rat \<Rightarrow> intent" where
  \<comment> \<open>\<open>{ intent_type: ty, confidence: c, entities: {} }\<close>\<close>
  "rule_intent ty c = default_intent\<lparr>intent_type := Some ty, confidence := Some c\<rparr>"

definition rule_cascade :: "string \<Rightarrow> intent" where
  \<comment> \<open>the \<open>if\<close>/\<open>else if\<close> chain inside the \<open>try\<close> block\<close>
  "rule_cascade q =
     (if rx_test rx_schedule q then rule_intent ''show_schedule'' (95 / 100)
      else if rx_test rx_production q then rule_intent ''production'' (9 / 10)
      else if rx_test rx_travel q then rule_intent ''travel'' (9 / 10)
      else if rx_test rx_merch q then rule_intent ''merch'' (9 / 10)
      else if rx_test rx_financial q then rule_intent ''financial'' (9 / 10)
      else if rx_test rx_media q then rule_intent ''media'' (9 / 10)
      else if rx_test rx_help q then rule_intent ''help'' (99 / 100)
      else default_intent)"

definition try_body :: "string \<Rightarrow> js_error + intent" where
  \<comment> \<open>the \<open>try\<close> block: it tests regular expressions on the string \<open>q\<close> and assigns
      \<open>intent\<close>; none of these operations throws\<close>
  "try_body q = Inr (rule_cascade q)"

definition catch_intent :: "string \<Rightarrow> js_error \<Rightarrow> intent" where
  \<comment> \<open>the \<open>catch (e)\<close> block\<close>
  "catch_intent content e =
     \<lparr>intent_type = None, term_id = None, confidence = Some 0, intent_entities = [],
      original_query = Some content, error_text = Some (error_message e)\<rparr>"

definition try_catch_rules :: "string \<Rightarrow> string \<Rightarrow> intent" where
  "try_catch_rules content q =
     (case try_body q of Inl e \<Rightarrow> catch_intent content e | Inr i \<Rightarrow> i)"

definition fast_path_intent :: "term_hit \<Rightarrow> intent" where
  \<comment> \<open>\<open>{ intent_type: "term_lookup", term_id: _hit.term_id, entities: {} }\<close>\<close>
  "fast_path_intent h =
     \<lparr>intent_type = Some ''term_lookup'', term_id = Some (hit_term_id h), confidence = None,
      intent_entities = [], original_query = None, error_text = None\<rparr>"

definition lookup_hit :: "matcher \<Rightarrow> string \<Rightarrow> js_error + term_hit option" where
  \<comment> \<open>\<open>lookupExact(_norm) || lookupInSentence(_norm)\<close>\<close>
  "lookup_hit m nrm =
     (case lookupExact m nrm of
        Inl e \<Rightarrow> Inl e
      | Inr (Some h) \<Rightarrow> Inr (Some h)
      | Inr None \<Rightarrow> lookupInSentence m nrm)"

definition matchIntent :: "matcher \<Rightarrow> string \<Rightarrow> js_error + intent" where
  "matchIntent m content =
     (case cleanName m content of
        Inl e \<Rightarrow> Inl e
      | Inr cleaned \<Rightarrow>
          (let q = toLowerCase cleaned in
           case normalize_fn m content of
             Inl e \<Rightarrow> Inl e
           | Inr nrm \<Rightarrow>
               (case lookup_hit m nrm of
                  Inl e \<Rightarrow> Inl e
                | Inr (Some h) \<Rightarrow> Inr (fast_path_intent h)
                | Inr None \<Rightarrow> Inr (try_catch_rules content q))))"

text \<open>
  A matcher for evaluation: \<open>cleanName\<close> returns its argument, \<open>normalize\<close> is the
  parser's normalization, and the term index holds the single term \<open>showtime\<close>.
\<close>

definition demo_matcher :: matcher where
  "demo_matcher =
     \<lparr>cleanName = (\<lambda>s. Inr s),
      normalize_fn = (\<lambda>s. Inr (normalizeMessage s)),
      lookupExact = (\<lambda>n. Inr (if n = ''showtime'' then Some \<lparr>hit_term_id = ''showtime''\<rparr> else None)),
      lookupInSentence =
        (\<lambda>n. Inr (if str_includes n ''showtime'' then Some \<lparr>hit_term_id = ''showtime''\<rparr> else None))\<rparr>"

section \<open>Timezone converter (zonedLocalToEpochMs)\<close>

text \<open>
  Instants are epoch milliseconds (\<open>int\<close>). The time-zone database belongs to the
  platform (\<open>Intl.DateTimeFormat\<close>), not to the sources; a zone is modelled by its
  offset from UTC in whole minutes at every instant, and the database by a partial map
  from IANA names to zones (the constructor throws a \<open>RangeError\<close> for a name it does
  not know). Zones with offsets that are not whole minutes are outside the model.

  The six numbers of a timestamp are read as the source reads them, with unary \<open>+\<close> on
  slices of the string: white space, a sign, a decimal point, an exponent and the
  prefixes \<open>0x\<close>, \<open>0o\<close>, \<open>0b\<close> are read as JavaScript reads them, and anything else
  is \<open>NaN\<close>.
\<close>

definition hex_chars :: string where
  "hex_chars = ''0123456789abcdef''"

definition digit_in :: "nat \<Rightarrow> char \<Rightarrow> bool" where
  \<comment> \<open>a digit of the given radix (2, 8, 10 or 16), in either case\<close>
  "digit_in radix c = (lower_char c \<in> set (take radix hex_chars))"

definition digit_value :: "char \<Rightarrow> int" where
  "digit_value c = int (length (takeWhile (\<lambda>d. d \<noteq> lower_char c) hex_chars))"

definition digits_value :: "nat \<Rightarrow> string \<Rightarrow> int" where
  "digits_value radix s = foldl (\<lambda>n c. int radix * n + digit_value c) 0 s"

definition radix_literal :: "string \<Rightarrow> rat option" where
  \<comment> \<open>\<open>0x\<close>, \<open>0o\<close>, \<open>0b\<close> and their digits\<close>
  "radix_literal s =
     (case s of
        z # p # ds \<Rightarrow>
          (let radix = (if lower_char p = CHR ''x'' then 16 else if lower_char p = CHR ''o'' then 8
                        else if lower_char p = CHR ''b'' then 2 else 0)
           in if z = CHR ''0'' \<and> radix \<noteq> 0 \<and> ds \<noteq> [] \<and> list_all (digit_in radix) ds
              then Some (of_int (digits_value radix ds)) else None)
      | _ \<Rightarrow> None)"

definition mantissa :: "string \<Rightarrow> rat option" where
  \<comment> \<open>\<open>digits\<close>, \<open>digits.\<close>, \<open>digits.digits\<close> or \<open>.digits\<close>\<close>
  "mantissa s =
     (let ip = takeWhile is_digit s; rest = dropWhile is_digit s in
      case rest of
        [] \<Rightarrow> if ip = [] then None else Some (of_int (digits_value 10 ip))
      | c # fp \<Rightarrow>
          if c = CHR ''.'' \<and> list_all is_digit fp \<and> (ip \<noteq> [] \<or> fp \<noteq> [])
          then Some (of_int (digits_value 10 ip) + of_int (digits_value 10 fp) / 10 ^ length fp)
          else None)"

definition strip_sign :: "string \<Rightarrow> bool \<times> string" where
  \<comment> \<open>an optional \<open>+\<close> or \<open>-\<close>: whether the sign is minus, and the rest\<close>
  "strip_sign s =
     (case s of
        [] \<Rightarrow> (False, [])
      | c # cs \<Rightarrow> if c = CHR ''-'' then (True, cs) else if c = CHR ''+'' then (False, cs)
                 else (False, c # cs))"

definition exponent :: "string \<Rightarrow> int option" where
  \<comment> \<open>what follows the mantissa: nothing, or \<open>e\<close>, an optional sign and digits\<close>
  "exponent s =
     (case s of
        [] \<Rightarrow> Some 0
      | c # cs \<Rightarrow>
          (let sg = strip_sign cs in
           if snd sg \<noteq> [] \<and> list_all is_digit (snd sg)
           then Some ((if fst sg then - 1 else 1) * digits_value 10 (snd sg))
           else None))"

definition scale10 :: "rat \<Rightarrow> int \<Rightarrow> rat" where
  "scale10 q e = (if 0 \<le> e then q * 10 ^ nat e else q / 10 ^ nat (- e))"

definition decimal_literal :: "string \<Rightarrow> rat option" where
  \<comment> \<open>an optional sign, a mantissa and an optional exponent part\<close>
  "decimal_literal s =
     (let sg = strip_sign s;
          is_e = (\<lambda>c. lower_char c = CHR ''e'');
          m = mantissa (takeWhile (\<lambda>c. \<not> is_e c) (snd sg));
          e = exponent (dropWhile (\<lambda>c. \<not> is_e c) (snd sg))
      in case (m, e) of
           (Some q, Some k) \<Rightarrow> Some ((if fst sg then - 1 else 1) * scale10 q k)
         | _ \<Rightarrow> None)"

definition to_number :: "string \<Rightarrow> rat option" where
  \<comment> \<open>unary \<open>+\<close> on a string (\<open>StringToNumber\<close>): white space around the literal is
      dropped, the empty literal is 0; \<open>None\<close> is \<open>NaN\<close>. The value is exact; the
      literal \<open>Infinity\<close>, which no slice of four characters holds, reads as \<open>None\<close>.\<close>
  "to_number s =
     (let t = trim s in
      if t = [] then Some 0
      else (case radix_literal t of Some q \<Rightarrow> Some q | None \<Rightarrow> decimal_literal t))"

definition trunc :: "rat \<Rightarrow> int" where
  \<comment> \<open>\<open>ToIntegerOrInfinity\<close> on a finite number: rounding towards zero\<close>
  "trunc q = (if 0 \<le> q then \<lfloor>q\<rfloor> else \<lceil>q\<rceil>)"

definition DayFromYear :: "int \<Rightarrow> int" where
  \<comment> \<open>the day number of the first day of a year, as ECMA-262 defines it\<close>
  "DayFromYear y =
     365 * (y - 1970) + (y - 1969) div 4 - (y - 1901) div 100 + (y - 1601) div 400"

definition InLeapYear :: "int \<Rightarrow> bool" where
  "InLeapYear y = (y mod 4 = 0 \<and> (y mod 100 \<noteq> 0 \<or> y mod 400 = 0))"

definition month_starts :: "bool \<Rightarrow> int list" where
  \<comment> \<open>the day within the year on which each month starts, and the length of the year\<close>
  "month_starts leap =
     (if leap then [0, 31, 60, 91, 121, 152, 182, 213, 244, 274, 305, 335, 366]
      else [0, 31, 59, 90, 120, 151, 181, 212, 243, 273, 304, 334, 365])"

definition MonthStart :: "bool \<Rightarrow> int \<Rightarrow> int" where
  \<comment> \<open>for a month index from 0 to 11\<close>
  "MonthStart leap mi = month_starts leap ! nat mi"

definition MakeDay :: "int \<Rightarrow> int \<Rightarrow> int \<Rightarrow> int" where
  \<comment> \<open>\<open>MakeDay(year, month, date)\<close> on integers: a month index outside 0 to 11 carries
      into the year, a date outside the month carries on as days\<close>
  "MakeDay y m dt =
     (let ym = y + m div 12; mn = m mod 12
      in DayFromYear ym + MonthStart (InLeapYear ym) mn + dt - 1)"

definition dateUTC :: "int \<Rightarrow> int \<Rightarrow> int \<Rightarrow> int \<Rightarrow> int \<Rightarrow> int \<Rightarrow> int" where
  \<comment> \<open>\<open>Date.UTC(year, monthIndex, day, hours, minutes, seconds)\<close> on integers, before
      \<open>TimeClip\<close>: years 0 to 99 mean 1900 to 1999\<close>
  "dateUTC y mi d h mn s =
     (let yr = (if 0 \<le> y \<and> y \<le> 99 then 1900 + y else y)
      in MakeDay yr mi d * 86400000 + h * 3600000 + mn * 60000 + s * 1000)"

definition TimeClip :: "int \<Rightarrow> int option" where
  \<comment> \<open>a time value beyond 8.64e15 milliseconds is \<open>NaN\<close>\<close>
  "TimeClip tv = (if \<bar>tv\<bar> \<le> 8640000000000000 then Some tv else None)"

definition slice :: "nat \<Rightarrow> nat \<Rightarrow> string \<Rightarrow> string" where
  \<comment> \<open>\<open>s.slice(a, b)\<close> for \<open>0 \<le> a \<le> b\<close>\<close>
  "slice a b s = take (b - a) (drop a s)"

definition or_zero :: "string \<Rightarrow> string" where
  \<comment> \<open>\<open>s || "0"\<close>\<close>
  "or_zero s = (if s = '''' then ''0'' else s)"

definition local_base :: "string \<Rightarrow> int option" where
  \<comment> \<open>the value of \<open>base\<close> in \<open>zonedLocalToEpochMs\<close>; \<open>None\<close> is \<open>NaN\<close>. The six
      numbers are read from the slices, \<open>M - 1\<close> is formed, and \<open>Date.UTC\<close> rounds each
      argument towards zero\<close>
  "local_base localIso =
     (case (to_number (slice 0 4 localIso), to_number (slice 5 7 localIso),
            to_number (slice 8 10 localIso), to_number (or_zero (slice 11 13 localIso)),
            to_number (or_zero (slice 14 16 localIso)), to_number (or_zero (slice 17 19 localIso)))
      of (Some Y, Some M, Some D, Some h, Some m, Some s) \<Rightarrow>
           TimeClip (dateUTC (trunc Y) (trunc (M - 1)) (trunc D) (trunc h) (trunc m) (trunc s))
       | _ \<Rightarrow> None)"

text \<open>
  The formatter. \<open>parts_of_ms x\<close> is the calendar date and time of day of the time value
  \<open>x\<close> in the proleptic Gregorian calendar (the year is the last one that starts on or
  before the day); \<open>formatToParts z u\<close> is what the formatter of zone \<open>z\<close> shows for
  the instant \<open>u\<close>, as numbers: the fields of the local time \<open>u + z u * 60000\<close>, with
  hours from 00 to 23, for local times from the year 1 on (the platform's formatter
  belongs to \<open>Intl\<close>, not to the sources).
\<close>

record parts =
  p_year :: int
  p_month :: int
  p_day :: int
  p_hour :: int
  p_minute :: int
  p_second :: int

definition YearFromDay :: "int \<Rightarrow> int" where
  \<comment> \<open>the year \<open>y\<close> with \<open>DayFromYear y \<le> n < DayFromYear (y + 1)\<close>, found next to the
      estimate by the mean length of a year\<close>
  "YearFromDay n =
     (let y0 = 1970 + (400 * n) div 146097
      in if DayFromYear (y0 + 1) \<le> n then y0 + 1
         else if DayFromYear y0 \<le> n then y0 else y0 - 1)"

definition MonthFromDay :: "bool \<Rightarrow> int \<Rightarrow> int" where
  \<comment> \<open>the index, from 0, of the month that holds a day within the year\<close>
  "MonthFromDay leap dwy = int (length (takeWhile (\<lambda>st. st \<le> dwy) (tl (month_starts leap))))"

definition parts_of_ms :: "int \<Rightarrow> parts" where
  "parts_of_ms x =
     (let dn = x div 86400000;
          tod = x mod 86400000;
          y = YearFromDay dn;
          dwy = dn - DayFromYear y;
          mi = MonthFromDay (InLeapYear y) dwy
      in \<lparr>p_year = y, p_month = mi + 1, p_day = dwy - MonthStart (InLeapYear y) mi + 1,
          p_hour = tod div 3600000, p_minute = tod div 60000 mod 60,
          p_second = tod div 1000 mod 60\<rparr>)"

type_synonym zone = "int \<Rightarrow> int"

type_synonym tzdb = "string \<Rightarrow> zone option"

definition formatToParts :: "zone \<Rightarrow> int \<Rightarrow> parts" where
  "formatToParts z u = parts_of_ms (u + z u * 60000)"

definition getOffsetMinutesAt :: "zone \<Rightarrow> int \<Rightarrow> int" where
  \<comment> \<open>\<open>(asUTC - utcMs) / 60000\<close>; the source calls it at whole seconds only, where the
      quotient is exact\<close>
  "getOffsetMinutesAt z utcMs =
     (let p = formatToParts z utcMs;
          asUTC = dateUTC (p_year p) (p_month p - 1) (p_day p) (p_hour p) (p_minute p) (p_second p)
      in (asUTC - utcMs) div 60000)"

definition two_pass :: "zone \<Rightarrow> int \<Rightarrow> int" where
  "two_pass z base =
     (let off = getOffsetMinutesAt z base;
          guess = base - off * 60000;
          off = getOffsetMinutesAt z guess
      in base - off * 60000)"

definition zonedLocalToEpochMs :: "tzdb \<Rightarrow> string \<Rightarrow> string \<Rightarrow> js_error + int" where
  \<comment> \<open>an unknown zone name makes the \<open>Intl.DateTimeFormat\<close> constructor throw; a
      \<open>NaN\<close> instant makes \<open>formatToParts\<close> throw (messages as V8 words them)\<close>
  "zonedLocalToEpochMs db localIso tz =
     (case db tz of
        None \<Rightarrow> Inl (JsError ''RangeError'' (''Invalid time zone specified: '' @ tz))
      | Some z \<Rightarrow>
          (case local_base localIso of
             None \<Rightarrow> Inl (JsError ''RangeError'' ''Invalid time value'')
           | Some base \<Rightarrow> Inr (two_pass z base)))"

text \<open>
  Zone data for evaluation: the offsets of Australia/Sydney at the instants of the year
  2025 (UTC+11 until 2025-04-05T16:00Z, UTC+10 until 2025-10-04T16:00Z, when clocks go
  from 02:00 to 03:00, UTC+11 after), and UTC.
\<close>

definition sydney_2025 :: zone where
  "sydney_2025 u =
     (if u < 1743868800000 then 660 else if u < 1759593600000 then 600 else 660)"

definition demo_tzdb :: tzdb where
  "demo_tzdb name =
     (if name = ''Australia/Sydney'' then Some sydney_2025
      else if name = ''UTC'' then Some (\<lambda>u. 0)
      else None)"

section \<open>Timestamps, stated on their own\<close>

text \<open>
  What the round-trip property is stated in, independently of how the source reads a
  timestamp: the fields of a date of the calendar and a time of day, the texts
  \<open>YYYY-MM-DDTHH:MM\<close> and \<open>YYYY-MM-DDTHH:MM:SS\<close> that write them, and the time value of
  the fields read as UTC.
\<close>

definition days_in_month :: "bool \<Rightarrow> int \<Rightarrow> int" where
  \<comment> \<open>for a month from 1 to 12\<close>
  "days_in_month leap m =
     [31, (if leap then 29 else 28), 31, 30, 31, 30, 31, 31, 30, 31, 30, 31] ! nat (m - 1)"

definition valid_parts :: "parts \<Rightarrow> bool" where
  \<comment> \<open>the fields of a date of the calendar and a time of day\<close>
  "valid_parts f =
     (1 \<le> p_month f \<and> p_month f \<le> 12
      \<and> 1 \<le> p_day f \<and> p_day f \<le> days_in_month (InLeapYear (p_year f)) (p_month f)
      \<and> 0 \<le> p_hour f \<and> p_hour f < 24 \<and> 0 \<le> p_minute f \<and> p_minute f < 60
      \<and> 0 \<le> p_second f \<and> p_second f < 60)"

definition digit_char :: "int \<Rightarrow> char" where
  "digit_char d = digit_chars ! nat d"

definition pad2 :: "int \<Rightarrow> string" where
  "pad2 n = [digit_char (n div 10), digit_char (n mod 10)]"

definition pad4 :: "int \<Rightarrow> string" where
  "pad4 n = [digit_char (n div 1000), digit_char (n div 100 mod 10),
             digit_char (n div 10 mod 10), digit_char (n mod 10)]"

definition iso_minutes :: "parts \<Rightarrow> string" where
  \<comment> \<open>\<open>YYYY-MM-DDTHH:MM\<close>\<close>
  "iso_minutes f =
     pad4 (p_year f) @ ''-'' @ pad2 (p_month f) @ ''-'' @ pad2 (p_day f) @ ''T''
       @ pad2 (p_hour f) @ '':'' @ pad2 (p_minute f)"

definition iso_seconds :: "parts \<Rightarrow> string" where
  \<comment> \<open>\<open>YYYY-MM-DDTHH:MM:SS\<close>\<close>
  "iso_seconds f = iso_minutes f @ '':'' @ pad2 (p_second f)"

definition parts_ms :: "parts \<Rightarrow> int" where
  \<comment> \<open>the time value of a date and time of day read as UTC\<close>
  "parts_ms f =
     (DayFromYear (p_year f) + MonthStart (InLeapYear (p_year f)) (p_month f - 1) + p_day f - 1)
       * 86400000
     + p_hour f * 3600000 + p_minute f * 60000 + p_second f * 1000"

definition half_past_two :: parts where
  \<comment> \<open>02:30:00 on 2025-10-05\<close>
  "half_past_two =
     \<lparr>p_year = 2025, p_month = 10, p_day = 5, p_hour = 2, p_minute = 30, p_second = 0\<rparr>"

definition half_past_three :: parts where
  \<comment> \<open>03:30:00 on 2025-10-05\<close>
  "half_past_three =
     \<lparr>p_year = 2025, p_month = 10, p_day = 5, p_hour = 3, p_minute = 30, p_second = 0\<rparr>"

section \<open>Collaborators of the engine\<close>

text \<open>
  What the engine reads from outside, as one record: the rows of
  \<open>travel_flights.csv\<close> (an exception when the file cannot be read; no rows when the
  file is missing or holds a header only), the clock, the platform's time-zone database,
  its \<open>String.prototype.toLowerCase\<close> as applied to the city names of the tables and
  options (the Unicode case mapping, which on the letters \<open>A-Z\<close> is \<open>toLowerCase\<close>
  above), its locale formatting of flights and shows, the show source \<open>getShows\<close>, the
  answer store \<open>resolveAnswer\<close>, the platform's \<open>Date\<close> parser, the environment
  variable \<open>LOCALE\<close>, and the value of \<open>Math.floor(Math.random() * 3)\<close>.
  A cell of the flight table is a string; an absent column reads as the empty string,
  which the source treats like \<open>undefined\<close> everywhere (\<open>||\<close> and truth tests).
\<close>

record flight =
  airline :: string
  flight_number :: string
  departure_city :: string
  arrival_city :: string
  departure_time :: string
  arrival_time :: string
  departure_timezone :: string
  arrival_timezone :: string
  confirmation :: string

record eflight = flight +
  depEpoch :: int

record platform =
  flight_table :: "js_error + flight list"
  now_ms :: int
  zones :: tzdb
  lower_case :: "string \<Rightarrow> string"
  render_flights :: "eflight list \<Rightarrow> string"
  getShows :: "js_error + showrec list"
  resolveAnswer :: "string \<Rightarrow> string \<Rightarrow> js_error + string option"
  parse_date :: "string \<Rightarrow> int option"
  render_shows :: "showrec list \<Rightarrow> string"
  env_locale :: "string option"
  random_index :: nat

definition truthy :: "string option \<Rightarrow> bool" where
  \<comment> \<open>the truth test of a value that is a string, \<open>null\<close> or \<open>undefined\<close>\<close>
  "truthy v = (case v of None \<Rightarrow> False | Some s \<Rightarrow> s \<noteq> '''')"

definition str :: "string option \<Rightarrow> string" where
  \<comment> \<open>\<open>v || ""\<close>\<close>
  "str v = (case v of None \<Rightarrow> '''' | Some s \<Rightarrow> s)"

section \<open>Flight scheduler (formatUpcomingFlights)\<close>

record flight_opts =
  toCity :: "string option"
  fromCity :: "string option"
  city :: "string option"
  nextOnly :: bool
  todayOnly :: bool
  userTz :: "string option"

definition flight_defaults :: flight_opts where
  \<comment> \<open>\<open>{ userTz: "Australia/Sydney" }\<close>\<close>
  "flight_defaults =
     \<lparr>toCity = None, fromCity = None, city = None, nextOnly = False, todayOnly = False,
      userTz = Some ''Australia/Sydney''\<rparr>"

definition user_zone :: "flight_opts \<Rightarrow> string" where
  \<comment> \<open>\<open>opts.userTz || "Australia/Sydney"\<close>\<close>
  "user_zone opts = (if truthy (userTz opts) then str (userTz opts) else ''Australia/Sydney'')"

definition table_rows :: "flight_opts \<Rightarrow> flight list \<Rightarrow> flight list" where
  \<comment> \<open>\<open>rows\<close>: the default departure zone is filled in, rows without a departure time
      are dropped\<close>
  "table_rows opts raw =
     filter (\<lambda>r. departure_time r \<noteq> '''')
       (map (\<lambda>a. a\<lparr>departure_timezone :=
                      (if departure_timezone a \<noteq> '''' then departure_timezone a
                       else user_zone opts)\<rparr>) raw)"

definition with_epoch :: "flight \<Rightarrow> int \<Rightarrow> eflight" where
  \<comment> \<open>\<open>{ ...r, depEpoch: ep }\<close>\<close>
  "with_epoch r ep =
     \<lparr>airline = airline r, flight_number = flight_number r,
      departure_city = departure_city r, arrival_city = arrival_city r,
      departure_time = departure_time r, arrival_time = arrival_time r,
      departure_timezone = departure_timezone r, arrival_timezone = arrival_timezone r,
      confirmation = confirmation r, depEpoch = ep\<rparr>"

fun attach_epochs :: "tzdb \<Rightarrow> flight list \<Rightarrow> js_error + eflight list" where
  \<comment> \<open>\<open>rows.map(r => ({ ...r, depEpoch: zonedLocalToEpochMs(...) }))\<close>: the first row
      whose conversion throws ends the map\<close>
  "attach_epochs db [] = Inr []"
| "attach_epochs db (r # rs) =
     (case zonedLocalToEpochMs db (departure_time r) (departure_timezone r) of
        Inl e \<Rightarrow> Inl e
      | Inr ep \<Rightarrow>
          (case attach_epochs db rs of
             Inl e \<Rightarrow> Inl e
           | Inr es \<Rightarrow> Inr (with_epoch r ep # es)))"

definition same_city :: "platform \<Rightarrow> string \<Rightarrow> string \<Rightarrow> bool" where
  \<comment> \<open>\<open>(field || "").toLowerCase() === String(c).toLowerCase()\<close>\<close>
  "same_city env field c = (lower_case env field = lower_case env c)"

definition city_filter :: "platform \<Rightarrow> flight_opts \<Rightarrow> eflight list \<Rightarrow> eflight list" where
  "city_filter env opts l =
     (if truthy (toCity opts)
        then filter (\<lambda>r. same_city env (arrival_city r) (str (toCity opts))) l
      else if truthy (fromCity opts)
        then filter (\<lambda>r. same_city env (departure_city r) (str (fromCity opts))) l
      else if truthy (city opts)
        then filter (\<lambda>r. same_city env (departure_city r) (str (city opts))
                         \<or> same_city env (arrival_city r) (str (city opts))) l
      else l)"

definition upcoming_sorted :: "int \<Rightarrow> eflight list \<Rightarrow> eflight list" where
  \<comment> \<open>\<open>list.filter(r => r.depEpoch >= nowUtc).sort((a, b) => a.depEpoch - b.depEpoch)\<close>\<close>
  "upcoming_sorted now l = sort_key depEpoch (filter (\<lambda>r. now \<le> depEpoch r) l)"

definition dateInUserTz :: "zone \<Rightarrow> int \<Rightarrow> int \<times> int \<times> int" where
  \<comment> \<open>the year, month and day that the zone shows for an instant; the source compares
      the strings \<open>year-month-day\<close> made of them\<close>
  "dateInUserTz z u = (let p = formatToParts z u in (p_year p, p_month p, p_day p))"

definition today_filter :: "platform \<Rightarrow> flight_opts \<Rightarrow> eflight list \<Rightarrow> js_error + eflight list" where
  "today_filter env opts l =
     (if todayOnly opts
      then (case zones env (user_zone opts) of
              None \<Rightarrow>
                Inl (JsError ''RangeError'' (''Invalid time zone specified: '' @ user_zone opts))
            | Some z \<Rightarrow>
                Inr (filter (\<lambda>r. dateInUserTz z (depEpoch r) = dateInUserTz z (now_ms env)) l))
      else Inr l)"

definition next_only :: "flight_opts \<Rightarrow> eflight list \<Rightarrow> eflight list" where
  \<comment> \<open>\<open>if (opts.nextOnly) list = [list[0]]\<close>, reached with a non-empty list only\<close>
  "next_only opts l = (if nextOnly opts then (case l of [] \<Rightarrow> [] | r # _ \<Rightarrow> [r]) else l)"

definition cap :: "int \<Rightarrow> eflight list \<Rightarrow> eflight list" where
  \<comment> \<open>\<open>if (limit && list.length > limit) list = list.slice(0, limit)\<close>; a negative end of
      \<open>slice\<close> counts from the end of the list\<close>
  "cap limit l =
     (if limit \<noteq> 0 \<and> limit < int (length l)
      then (if 0 \<le> limit then take (nat limit) l else take (nat (int (length l) + limit)) l)
      else l)"

definition listed_before_cut :: "platform \<Rightarrow> flight_opts \<Rightarrow> js_error + eflight list" where
  \<comment> \<open>the value of \<open>list\<close> where the source tests \<open>list.length === 0\<close>\<close>
  "listed_before_cut env opts =
     (case flight_table env of
        Inl e \<Rightarrow> Inl e
      | Inr raw \<Rightarrow>
          (case attach_epochs (zones env) (table_rows opts raw) of
             Inl e \<Rightarrow> Inl e
           | Inr l \<Rightarrow> today_filter env opts (upcoming_sorted (now_ms env) (city_filter env opts l))))"


definition formatUpcomingFlights :: "platform \<Rightarrow> int \<Rightarrow> flight_opts \<Rightarrow> js_error + string" where
  "formatUpcomingFlights env limit opts =
     (case listed_before_cut env opts of
        Inl e \<Rightarrow> Inl e
      | Inr l \<Rightarrow>
          if l = [] then Inr ''I found 0 flights.''
          else Inr (render_flights env (cap limit (next_only opts l))))"

subsection \<open>The filters of the flight scheduler, record by record\<close>



section \<open>Retrieval orchestrator (retrieveData)\<close>

datatype retrieval =
    ContextualTerm string string string string
      \<comment> \<open>term, city, field, value\<close>
  | ContextualLocation string string string string string
      \<comment> \<open>term, city, field, value, place\<close>
  | GenericTerm string string
      \<comment> \<open>term, definition\<close>
  | TravelSchedule string
      \<comment> \<open>text\<close>

definition rx_flight :: rx where
  \<comment> \<open>\<open>/\bflight(s)?\b/\<close>\<close>
  "rx_flight = seqs [Bnd, Lit ''flight'', Opt (Lit ''s''), Bnd]"

definition classify_step :: "engine \<Rightarrow> string option \<times> string option \<Rightarrow> string
    \<Rightarrow> string option \<times> string option" where
  \<comment> \<open>one round of \<open>for (const e of entities)\<close> on the pair (term, city)\<close>
  "classify_step eng tc e =
     (if \<not> truthy (fst tc) \<and> e \<in> set (industryTerms eng) then Some e else fst tc,
      if \<not> truthy (snd tc) \<and> e \<in> set (cities eng) then Some e else snd tc)"

definition classify_entities :: "engine \<Rightarrow> string list \<Rightarrow> string option \<times> string option" where
  "classify_entities eng ents = foldl (classify_step eng) (None, None) ents"

definition getShowByCity :: "platform \<Rightarrow> string \<Rightarrow> js_error + showrec option" where
  "getShowByCity env c =
     (if c = '''' then Inr None
      else (case getShows env of
              Inl e \<Rightarrow> Inl e
            | Inr shows \<Rightarrow>
                Inr (find (\<lambda>s. lower_case env (str (get_field s ''city'')) = lower_case env c)
                       shows)))"

definition strip_time_name :: "string \<Rightarrow> string" where
  \<comment> \<open>\<open>k.replace(/_?(time|name)$/i, "")\<close>\<close>
  "strip_time_name key =
     (let lk = toLowerCase key in
      if endsWith lk ''_time'' \<or> endsWith lk ''_name'' then take (length key - 5) key
      else if endsWith lk ''time'' \<or> endsWith lk ''name'' then take (length key - 4) key
      else key)"

definition base_norm :: "string \<Rightarrow> string" where
  \<comment> \<open>\<open>norm(base).replace(/_/g, "")\<close>\<close>
  "base_norm base = filter (\<lambda>c. c \<noteq> CHR ''_'') (norm base)"

definition guessTermFromShowKeys :: "string \<Rightarrow> showrec \<Rightarrow> string option" where
  "guessTermFromShowKeys qstr sh =
     find (\<lambda>base. base_norm base \<noteq> '''' \<and> str_includes (norm qstr) (base_norm base))
       (map strip_time_name (object_keys sh))"

fun join_comma :: "string list \<Rightarrow> string" where
  \<comment> \<open>\<open>parts.join(", ")\<close>\<close>
  "join_comma [] = ''''"
| "join_comma [x] = x"
| "join_comma (x # xs) = x @ '', '' @ join_comma xs"

definition place_of :: "showrec \<Rightarrow> string" where
  "place_of sh =
     join_comma
       (filter (\<lambda>s. s \<noteq> '''')
          [str (get_field sh ''venue_name''), str (get_field sh ''city''),
           (if truthy (get_field sh ''state'') then str (get_field sh ''state'')
            else str (get_field sh ''region'')),
           str (get_field sh ''country'')])"

definition generic_lookup :: "platform \<Rightarrow> string \<Rightarrow> string \<Rightarrow> js_error + retrieval option" where
  \<comment> \<open>\<open>const definition = await resolveAnswer(term, locale);
      if (definition) return { responseType: "genericTerm", ... }\<close>, else nothing\<close>
  "generic_lookup env t loc =
     (case resolveAnswer env t loc of
        Inl e \<Rightarrow> Inl e
      | Inr d \<Rightarrow> Inr (if truthy d then Some (GenericTerm t (str d)) else None))"

definition known_term :: "engine \<Rightarrow> string option \<Rightarrow> bool" where
  \<comment> \<open>\<open>term && this.industryTerms?.includes(term)\<close>\<close>
  "known_term eng trm = (truthy trm \<and> str trm \<in> set (industryTerms eng))"

definition contextual :: "platform \<Rightarrow> engine \<Rightarrow> parsed \<Rightarrow> string option \<Rightarrow> string
    \<Rightarrow> js_error + retrieval option" where
  \<comment> \<open>the branch \<open>if (city) { ... }\<close>, with \<open>term\<close> and \<open>city\<close> as classified\<close>
  "contextual env eng p trm c =
     (case getShowByCity env c of
        Inl e \<Rightarrow> Inl e
      | Inr None \<Rightarrow>
          if known_term eng trm then generic_lookup env (str trm) ''en-AU'' else Inr None
      | Inr (Some sh) \<Rightarrow>
          (let trm' = (if truthy trm then trm
                       else (case guessTermFromShowKeys (normalized p) sh of
                               None \<Rightarrow> trm | Some g \<Rightarrow> Some g))
           in case (if truthy trm' then findFieldForTerm (Some sh) trm' (verb p) else None) of
                Some h \<Rightarrow>
                  if verb p = Some ''where is''
                  then Inr (Some (ContextualLocation (str trm') c (hit_k h) (hit_val h) (place_of sh)))
                  else Inr (Some (ContextualTerm (str trm') c (hit_k h) (hit_val h)))
              | None \<Rightarrow>
                  if known_term eng trm' then generic_lookup env (str trm') ''en-AU''
                  else Inr None))"

definition retrieveData :: "platform \<Rightarrow> engine \<Rightarrow> parsed \<Rightarrow> js_error + retrieval option" where
  \<comment> \<open>a \<open>null\<close> argument reads as the record without verb, entities and text\<close>
  "retrieveData env eng p =
     (if entities p = [] \<and> normalized p = '''' then Inr None
      else
        (let trm = fst (classify_entities eng (entities p));
             cty = snd (classify_entities eng (entities p));
             q = normalized p
         in if rx_test rx_flight q
            then (case formatUpcomingFlights env 10
                         (if truthy cty then flight_defaults\<lparr>toCity := cty\<rparr> else flight_defaults) of
                    Inl e \<Rightarrow> Inl e
                  | Inr txt \<Rightarrow> Inr (Some (TravelSchedule txt)))
            else if truthy cty then contextual env eng p trm (str cty)
            else if truthy trm then generic_lookup env (str trm) ''en-AU''
            else Inr None))"

section \<open>Response generator (generateResponseText, generateResponse)\<close>

definition rsquo :: string where
  \<comment> \<open>the character U+2019 of the source's texts, in UTF-8\<close>
  "rsquo = [CHR 0xE2, CHR 0x80, CHR 0x99]"

definition FALLBACKS :: "string list" where
  "FALLBACKS =
     [''Sorry, I don'' @ rsquo @ ''t have that info yet. Try another term?'',
      ''Hmm, I can'' @ rsquo @ ''t find that. Want to ask about show times or venues?'',
      ''I don'' @ rsquo @ ''t have that, but I can help with schedules, venues, or merch.'']"

definition fallback_text :: "platform \<Rightarrow> string" where
  \<comment> \<open>\<open>FALLBACKS[Math.floor(Math.random() * FALLBACKS.length)]\<close>, an index from 0 to 2\<close>
  "fallback_text env = FALLBACKS ! (random_index env mod 3)"

definition generateResponseText :: "platform \<Rightarrow> retrieval option \<Rightarrow> string" where
  "generateResponseText env retrieved =
     (case retrieved of
        None \<Rightarrow> fallback_text env
      | Some (TravelSchedule txt) \<Rightarrow> if txt \<noteq> '''' then txt else fallback_text env
      | Some (ContextualLocation t c field v place) \<Rightarrow>
          ''The '' @ t @ '' for the show in '' @ c @ '' is at '' @ place @ ''.''
      | Some (ContextualTerm t c field v) \<Rightarrow>
          ''The '' @ t @ '' for the show in '' @ c @ '' is ''
            @ (if str_includes (toLowerCase field) ''time'' then ''at '' else '''') @ v @ ''.''
      | Some (GenericTerm t d) \<Rightarrow> ''The official definition for '' @ t @ '' is: '' @ d)"

text \<open>
  The argument of \<open>generateResponse\<close>: \<open>message\<close> and \<open>intent\<close> may be absent;
  \<open>member\<close> is a string, an object with optional identifiers, or absent; \<open>context\<close>
  is not read.
\<close>

datatype member =
    MemberString string
  | MemberObject "string option" "string option" "string option" "string option"
      \<comment> \<open>\<open>memberId\<close>, \<open>member_id\<close>, \<open>id\<close>, \<open>identifier\<close>\<close>
  | MemberAbsent

record request =
  req_message :: "string option"
  req_intent :: "intent option"
  req_member :: member

record response =
  rtype :: string
  rtext :: string
  rerror :: "string option"

definition memberStr :: "member \<Rightarrow> string" where
  "memberStr m =
     (case m of
        MemberString s \<Rightarrow> s
      | MemberObject a b c d \<Rightarrow>
          if truthy a then str a else if truthy b then str b else if truthy c then str c
          else if truthy d then str d else ''guest''
      | MemberAbsent \<Rightarrow> ''guest'')"

definition rx_next_show :: rx where
  \<comment> \<open>\<open>/\bnext\s+show\b/i\<close>, applied to the lowercased text\<close>
  "rx_next_show = seqs [Bnd, Lit ''next'', Plus Spc, Lit ''show'', Bnd]"

definition rx_next :: rx where
  \<comment> \<open>\<open>/\bnext\b/\<close>\<close>
  "rx_next = seqs [Bnd, Lit ''next'', Bnd]"

definition rx_today :: rx where
  \<comment> \<open>\<open>/\btoday\b/\<close>\<close>
  "rx_today = seqs [Bnd, Lit ''today'', Bnd]"

definition show_date :: "platform \<Rightarrow> showrec \<Rightarrow> int option" where
  \<comment> \<open>\<open>new Date(s.date)\<close>, \<open>None\<close> for an invalid date\<close>
  "show_date env s = (if truthy (get_field s ''date'') then parse_date env (str (get_field s ''date'')) else None)"

definition is_upcoming :: "platform \<Rightarrow> showrec \<Rightarrow> bool" where
  \<comment> \<open>\<open>s && s.date && new Date(s.date) >= today\<close>\<close>
  "is_upcoming env s = (case show_date env s of None \<Rightarrow> False | Some d \<Rightarrow> now_ms env \<le> d)"

definition date_key :: "platform \<Rightarrow> showrec \<Rightarrow> int" where
  "date_key env s = (case show_date env s of None \<Rightarrow> 0 | Some d \<Rightarrow> d)"

definition show_schedule :: "platform \<Rightarrow> request \<Rightarrow> js_error + response" where
  \<comment> \<open>\<open>case "show_schedule"\<close>\<close>
  "show_schedule env req =
     (case getShows env of
        Inl e \<Rightarrow> Inl e
      | Inr shows \<Rightarrow>
          (let upcoming = sort_key (date_key env) (filter (is_upcoming env) shows) in
           if upcoming = []
           then Inr \<lparr>rtype = ''schedule'',
                     rtext = ''No upcoming shows found (for: '' @ memberStr (req_member req) @ '')'',
                     rerror = None\<rparr>
           else
             (let wantNext = rx_test rx_next_show (toLowerCase (str (req_message req)));
                  shown = (if wantNext then take 1 upcoming else take 10 upcoming)
              in Inr \<lparr>rtype = ''schedule'', rtext = render_shows env shown, rerror = None\<rparr>)))"

definition legacy_term :: "engine \<Rightarrow> request \<Rightarrow> intent \<Rightarrow> string option" where
  \<comment> \<open>\<open>termId\<close> of the safety net: \<open>intent.term_id\<close>, else \<open>intent.entities.term_id\<close>,
      else the first vocabulary term that the lowercased message includes\<close>
  "legacy_term eng req i =
     (let termId = (if truthy (term_id i) then term_id i else map_of (intent_entities i) ''term_id'')
      in if \<not> truthy termId \<and> truthy (req_message req)
         then (case find (\<lambda>t. str_includes (toLowerCase (str (req_message req))) t) (industryTerms eng) of
                 None \<Rightarrow> termId
               | Some t \<Rightarrow> if t \<noteq> '''' then Some t else termId)
         else termId)"

definition term_lookup :: "platform \<Rightarrow> engine \<Rightarrow> request \<Rightarrow> intent \<Rightarrow> js_error + response" where
  \<comment> \<open>\<open>case "term_lookup"\<close>\<close>
  "term_lookup env eng req i =
     (let loc = (if truthy (env_locale env) then str (env_locale env) else ''en-AU'');
          prs = parseMessage eng (str (req_message req))
      in case retrieveData env eng prs of
           Inl e \<Rightarrow> Inl e
         | Inr (Some r) \<Rightarrow>
             Inr \<lparr>rtype = ''answer'', rtext = generateResponseText env (Some r), rerror = None\<rparr>
         | Inr None \<Rightarrow>
             (if truthy (legacy_term eng req i)
              then (case generic_lookup env (str (legacy_term eng req i)) loc of
                      Inl e \<Rightarrow> Inl e
                    | Inr r \<Rightarrow>
                        Inr \<lparr>rtype = ''answer'', rtext = generateResponseText env r, rerror = None\<rparr>)
              else Inr \<lparr>rtype = ''answer'', rtext = generateResponseText env None, rerror = None\<rparr>))"

definition travel_options :: "string list \<Rightarrow> string \<Rightarrow> flight_opts \<times> int" where
  \<comment> \<open>the values of \<open>opts\<close> and \<open>limit\<close> that the travel handler passes to
      \<open>formatUpcomingFlights\<close>; the second argument is the lowercased message\<close>
  "travel_options cts nm =
     (let fromCityMatch = find (\<lambda>c. str_includes nm (''from '' @ c)) cts in
      if truthy fromCityMatch then (flight_defaults\<lparr>fromCity := fromCityMatch\<rparr>, 50)
      else
        (let toCityMatch = find (\<lambda>c. str_includes nm (''to '' @ c)) cts in
         if truthy toCityMatch then (flight_defaults\<lparr>toCity := toCityMatch\<rparr>, 50)
         else if rx_test rx_next nm then (flight_defaults\<lparr>nextOnly := True\<rparr>, 1)
         else if rx_test rx_today nm then (flight_defaults\<lparr>todayOnly := True\<rparr>, 50)
         else
           (let genericCityMatch = find (\<lambda>c. str_includes nm c) cts in
            if truthy genericCityMatch then (flight_defaults\<lparr>city := genericCityMatch\<rparr>, 50)
            else (flight_defaults, 10))))"

definition js_message :: "js_error \<Rightarrow> string" where
  \<comment> \<open>\<open>e.message\<close>\<close>
  "js_message e = (case e of JsError name msg \<Rightarrow> msg)"

definition travel :: "platform \<Rightarrow> engine \<Rightarrow> request \<Rightarrow> js_error + response" where
  \<comment> \<open>\<open>case "travel"\<close>, with its own \<open>try\<close>/\<open>catch\<close>\<close>
  "travel env eng req =
     (let ol = travel_options (cities eng) (toLowerCase (str (req_message req))) in
      case formatUpcomingFlights env (snd ol) (fst ol) of
        Inl e \<Rightarrow>
          Inr \<lparr>rtype = ''error'', rtext = ''Flights lookup failed: '' @ js_message e, rerror = None\<rparr>
      | Inr txt \<Rightarrow> Inr \<lparr>rtype = ''schedule'', rtext = txt, rerror = None\<rparr>)"

definition dispatch :: "platform \<Rightarrow> engine \<Rightarrow> request \<Rightarrow> js_error + response" where
  \<comment> \<open>the body of the outer \<open>try\<close> block\<close>
  "dispatch env eng req =
     (case req_intent req of
        None \<Rightarrow> Inr \<lparr>rtype = ''fallback'', rtext = ''I'' @ [CHR 0x27] @ ''m not sure how to handle that yet.'', rerror = None\<rparr>
      | Some i \<Rightarrow>
          if \<not> truthy (intent_type i)
          then Inr \<lparr>rtype = ''fallback'', rtext = ''I'' @ [CHR 0x27] @ ''m not sure how to handle that yet.'', rerror = None\<rparr>
          else if intent_type i = Some ''help''
          then Inr \<lparr>rtype = ''help'',
                    rtext = ''You can ask me about shows, schedules, venues, or general tour details.'',
                    rerror = None\<rparr>
          else if intent_type i = Some ''show_schedule'' then show_schedule env req
          else if intent_type i = Some ''term_lookup'' then term_lookup env eng req i
          else if intent_type i = Some ''travel'' then travel env eng req
          else Inr \<lparr>rtype = ''unknown'',
                    rtext = ''I don'' @ rsquo @ ''t have a handler for intent: '' @ str (intent_type i),
                    rerror = None\<rparr>)"

definition generateResponse :: "platform \<Rightarrow> engine \<Rightarrow> request \<Rightarrow> js_error + response" where
  \<comment> \<open>the outer \<open>try\<close>/\<open>catch\<close>: \<open>Inr\<close> is a returned response, \<open>Inl\<close> would be an
      exception that reaches the caller\<close>
  "generateResponse env eng req =
     (case dispatch env eng req of
        Inl err \<Rightarrow>
          Inr \<lparr>rtype = ''error'',
                rtext = ''Sorry, something went wrong while generating a response.'',
                rerror = Some (error_message err)\<rparr>
      | Inr r \<Rightarrow> Inr r)"

definition response_types :: "string list" where
  "response_types = [''answer'', ''schedule'', ''help'', ''fallback'', ''unknown'', ''error'']"

definition filters_set :: "flight_opts \<Rightarrow> nat" where
  \<comment> \<open>how many of the five filter options are set\<close>
  "filters_set opts =
     (if truthy (fromCity opts) then 1 else 0) + (if truthy (toCity opts) then 1 else 0)
     + (if nextOnly opts then 1 else 0) + (if todayOnly opts then 1 else 0)
     + (if truthy (city opts) then 1 else 0)"

section \<open>Data for evaluation\<close>

definition flight_syd_akl :: flight where
  "flight_syd_akl =
     \<lparr>airline = ''Qantas'', flight_number = ''QF141'', departure_city = ''Sydney'',
      arrival_city = ''Auckland'', departure_time = ''2025-03-15T09:00:00'',
      arrival_time = ''2025-03-15T14:05:00'', departure_timezone = ''Australia/Sydney'',
      arrival_timezone = ''Pacific/Auckland'', confirmation = ''ABC123''\<rparr>"

definition flight_syd_per :: flight where
  "flight_syd_per =
     \<lparr>airline = ''Qantas'', flight_number = ''QF643'', departure_city = ''Sydney'',
      arrival_city = ''Perth'', departure_time = ''2025-03-14T07:30'',
      arrival_time = ''2025-03-14T09:40'', departure_timezone = '''',
      arrival_timezone = ''Australia/Perth'', confirmation = ''''\<rparr>"

definition demo_platform :: platform where
  \<comment> \<open>two flights in the table; the clock stands at 2025-03-01T00:00:00Z\<close>
  "demo_platform =
     \<lparr>flight_table = Inr [flight_syd_akl, flight_syd_per],
      now_ms = 1740787200000,
      zones = demo_tzdb,
      lower_case = toLowerCase,
      render_flights = (\<lambda>l. join_comma (map flight_number l)),
      getShows = Inr [],
      resolveAnswer = (\<lambda>t loc. Inr None),
      parse_date = (\<lambda>s. None),
      render_shows = (\<lambda>l. ''''),
      env_locale = None,
      random_index = 0\<rparr>"

definition demo_engine :: engine where
  "demo_engine = \<lparr>industryTerms = [''rider''], cities = [''sydney'', ''auckland'', ''perth'']\<rparr>"

definition show_tie :: showrec where
  "show_tie = [(''show_time'', Some ''20:00''), (''doors_time'', Some ''19:00'')]"

definition show_blank :: showrec where
  "show_blank = [(''city'', Some ''sydney''), (''notes'', Some ''  ''), (''promoter'', None)]"

definition show_sydney :: showrec where
  "show_sydney = [(''city'', Some ''sydney''), (''soundcheck_time'', Some ''16:00''),
                  (''show_time'', Some ''20:00'')]"

definition demo_parsed :: parsed where
  "demo_parsed = \<lparr>verb = Some ''when is'', entities = [''auckland'', ''flight''],
                   normalized = ''when is my flight to auckland''\<rparr>"

text \<open>
  Collaborators that fail: a term index that throws, a flight table with a row whose
  departure time is the word \<open>tomorrow\<close>, and a show source that throws.
\<close>

definition failing_matcher :: matcher where
  "failing_matcher =
     demo_matcher\<lparr>lookupExact := (\<lambda>n. Inl (JsError ''Error'' ''term index unavailable''))\<rparr>"

definition flight_bad_time :: flight where
  "flight_bad_time = flight_syd_akl\<lparr>flight_number := ''QF999'', departure_time := ''tomorrow''\<rparr>"

definition bad_row_platform :: platform where
  "bad_row_platform = demo_platform\<lparr>flight_table := Inr [flight_syd_akl, flight_bad_time]\<rparr>"

definition offline_platform :: platform where
  "offline_platform = demo_platform\<lparr>getShows := Inl (JsError ''Error'' ''connect ECONNREFUSED'')\<rparr>"

definition schedule_request :: request where
  "schedule_request =
     \<lparr>req_message = Some ''what is the schedule'',
      req_intent = Some (rule_cascade ''what is the schedule''),
      req_member = MemberAbsent\<rparr>"

definition travel_request :: request where
  "travel_request =
     \<lparr>req_message = Some ''flights today'',
      req_intent = Some (rule_cascade ''flights today''),
      req_member = MemberAbsent\<rparr>"

chapter \<open>Verified properties\<close>

section \<open>Properties of the query parser\<close>

lemma parseMessage_entities_empty: "entities (parseMessage eng message) = []"
  by (simp add: parseMessage_def Let_def)

lemma parseMessage_result:
  "parseMessage eng message = \<lparr>verb = None, entities = [], normalized = ''''\<rparr>"
  by (simp add: parseMessage_def Let_def)

text \<open>
  The statements that are never reached would do what claim C1 says: a vocabulary entry is
  collected exactly when the normalized text includes it, and no entry is collected twice.
\<close>

lemma foldl_push_new_set:
  "set (foldl (push_new nrm) acc cs) = set acc \<union> {c \<in> set cs. str_includes nrm c}"
  by (induction cs arbitrary: acc) (auto simp: push_new_def)

lemma foldl_push_new_distinct:
  "distinct acc \<Longrightarrow> distinct (foldl (push_new nrm) acc cs)"
  by (induction cs arbitrary: acc) (auto simp: push_new_def)

lemma parseMessage_unreached_entities:
  assumes "c \<in> set (industryTerms eng @ cities eng)" and "c \<noteq> ''''"
  shows "c \<in> set (entities (parseMessage_unreached eng nrm)) \<longleftrightarrow> str_includes nrm c"
  using assms
  by (auto simp: parseMessage_unreached_def Let_def foldl_push_new_set
           simp del: foldl_Cons foldl_Nil foldl_append filter_append)

lemma parseMessage_unreached_distinct:
  "distinct (entities (parseMessage_unreached eng nrm))"
  by (simp add: parseMessage_unreached_def Let_def foldl_push_new_distinct
           del: foldl_Cons foldl_Nil foldl_append filter_append)

text \<open>
  Claim C1 (a known term is among \<open>parse(msg).entities\<close> exactly when its normalized
  string occurs in the normalized message). The code does not do this: with the
  vocabulary \<open>industryTerms = ["rider"]\<close> and the message \<open>"rider"\<close>, the normalized
  message is \<open>"rider"\<close> and contains the term, yet \<open>parseMessage\<close> returns no entity,
  because of the unconditional \<open>return out\<close>.
\<close>

theorem C1_parseMessage_returns_no_entity:
  "normalizeMessage ''rider'' = ''rider''
   \<and> str_includes (normalizeMessage ''rider'') ''rider''
   \<and> ''rider'' \<in> set (industryTerms \<lparr>industryTerms = [''rider''], cities = []\<rparr>)
   \<and> ''rider'' \<notin> set (entities (parseMessage \<lparr>industryTerms = [''rider''], cities = []\<rparr> ''rider''))
   \<and> parseMessage \<lparr>industryTerms = [''rider''], cities = []\<rparr> ''rider''
       = \<lparr>verb = None, entities = [], normalized = ''''\<rparr>"
  by (simp add: parseMessage_def Let_def normalizeMessage_def trim_def strip_punct_def
      toLowerCase_def lower_char_def is_word_def is_space_def is_lower_def is_upper_def
      is_digit_def lower_chars_def upper_chars_def digit_chars_def str_includes_def)

section \<open>Properties of the field resolver\<close>

subsection \<open>The first element of a stable sort\<close>

lemma hd_insort_key:
  "hd (insort_key f x xs) = (if xs = [] \<or> f x \<le> f (hd xs) then x else hd xs)"
  by (cases xs) auto

lemma sort_key_eq_Nil: "(sort_key f xs = []) = (xs = [])"
  by (metis length_0_conv length_sort)

lemma hd_sort_key_first_least:
  fixes f :: "'a \<Rightarrow> 'b::linorder"
  shows "xs \<noteq> [] \<Longrightarrow>
    \<exists>pre post. xs = pre @ hd (sort_key f xs) # post
      \<and> (\<forall>y. y \<in> set pre \<longrightarrow> f (hd (sort_key f xs)) < f y)
      \<and> (\<forall>y. y \<in> set post \<longrightarrow> f (hd (sort_key f xs)) \<le> f y)"
proof (induction xs)
  case Nil
  then show ?case by simp
next
  case (Cons x xs)
  show ?case
  proof (cases "xs = []")
    case True
    then show ?thesis
      by (intro exI [of _ "[]"]) simp
  next
    case False
    let ?m = "hd (sort_key f xs)"
    from Cons.IH [OF False] obtain pre post where
      split: "xs = pre @ ?m # post" and
      pre: "\<forall>y. y \<in> set pre \<longrightarrow> f ?m < f y" and
      post: "\<forall>y. y \<in> set post \<longrightarrow> f ?m \<le> f y"
      by blast
    have ne: "sort_key f xs \<noteq> []" using False by (simp add: sort_key_eq_Nil)
    show ?thesis
    proof (cases "f x \<le> f ?m")
      case True
      then have h: "hd (sort_key f (x # xs)) = x"
        by (simp add: hd_insort_key)
      have "\<forall>y. y \<in> set xs \<longrightarrow> f x \<le> f y"
      proof (intro allI impI)
        fix y assume "y \<in> set xs"
        then have "y \<in> set pre \<or> y = ?m \<or> y \<in> set post"
          using split by (metis Un_iff set_ConsD set_append)
        then have "f ?m \<le> f y" using pre post by (auto simp: less_imp_le)
        with True show "f x \<le> f y" by simp
      qed
      then have "x # xs = [] @ x # xs \<and> (\<forall>y. y \<in> set [] \<longrightarrow> f x < f y)
          \<and> (\<forall>y. y \<in> set xs \<longrightarrow> f x \<le> f y)" by simp
      then show ?thesis unfolding h by blast
    next
      case False
      then have h: "hd (sort_key f (x # xs)) = ?m"
        using ne by (simp add: hd_insort_key)
      have "x # xs = (x # pre) @ ?m # post" using split by simp
      moreover have "\<forall>y. y \<in> set (x # pre) \<longrightarrow> f ?m < f y"
        using pre False by auto
      ultimately show ?thesis unfolding h using post by blast
    qed
  qed
qed

subsection \<open>Candidates\<close>

lemma scored_entry_member:
  "x \<in> set (scored_entry sh nT vb key) \<Longrightarrow>
     hit_k x = key \<and> get_field sh key = Some (hit_val x) \<and> trim (hit_val x) \<noteq> ''''
     \<and> hit_score x = key_score nT vb key \<and> 0 < hit_score x"
  by (auto simp: scored_entry_def split: option.splits if_splits)

lemma scored_member:
  "x \<in> set (scored sh nT vb) \<Longrightarrow>
     hit_k x \<in> set (object_keys sh) \<and> get_field sh (hit_k x) = Some (hit_val x)
     \<and> trim (hit_val x) \<noteq> '''' \<and> hit_score x = key_score nT vb (hit_k x) \<and> 0 < hit_score x"
  unfolding scored_def using scored_entry_member by fastforce

lemma scored_empty_if_no_positive_score:
  "list_all (\<lambda>key. key_score nT vb key = 0) (object_keys sh) \<Longrightarrow> scored sh nT vb = []"
  by (auto simp: scored_def scored_entry_def list_all_iff split: option.splits)

lemma trim_Nil: "trim [] = []"
  by (simp add: trim_def)

lemma find_Some_holds: "find P xs = Some x \<Longrightarrow> P x \<and> x \<in> set xs"
  by (induction xs) (auto split: if_splits)

lemma prefs_are_time_keys: "p \<in> set prefs \<Longrightarrow> isTimeKey p"
proof -
  have "isTimeKey ''soundcheck_time''" by code_simp
  moreover have "isTimeKey ''load_in_time''" by code_simp
  moreover have "isTimeKey ''doors_time''" by code_simp
  moreover have "isTimeKey ''show_time''" by code_simp
  ultimately show "p \<in> set prefs \<Longrightarrow> isTimeKey p"
    by (auto simp: prefs_def)
qed

text \<open>
  Each of the four preferred keys is a time key and scores at least 3 for any verb, so
  whenever one of them is present with a non-blank value the array \<open>scored\<close> is not
  empty: the fallback loop of the source never returns a field.
\<close>

lemma time_fallback_unreachable:
  assumes "scored sh nT vb = []"
  shows "time_fallback sh = None"
proof (cases "find (pref_present sh) prefs")
  case None
  then show ?thesis by (simp add: time_fallback_def)
next
  case (Some p)
  then have pp: "pref_present sh p" and mem: "p \<in> set prefs"
    using find_Some_holds by fastforce+
  from pp obtain v where v: "get_field sh p = Some v" "trim v \<noteq> ''''" "p \<in> set (object_keys sh)"
    by (auto simp: pref_present_def trim_Nil split: option.splits)
  have "0 < key_score nT vb p"
    using prefs_are_time_keys [OF mem] by (simp add: key_score_def)
  then have "scored_entry sh nT vb p \<noteq> []"
    using v by (simp add: scored_entry_def)
  then have "scored sh nT vb \<noteq> []"
    using v(3) by (auto simp: scored_def)
  with assms show ?thesis by simp
qed

lemma findFieldForTerm_Some_sound:
  assumes "findFieldForTerm sho trm vb = Some h"
  shows "\<exists>sh. sho = Some sh \<and> hit_k h \<in> set (object_keys sh)
           \<and> get_field sh (hit_k h) = Some (hit_val h) \<and> trim (hit_val h) \<noteq> ''''"
proof -
  from assms obtain sh t where s: "sho = Some sh" "trm = Some t" "t \<noteq> ''''"
    by (auto simp: findFieldForTerm_def split: option.splits if_splits)
  show ?thesis
  proof (cases "scored sh (norm t) vb = []")
    case True
    then have "time_fallback sh = None" by (rule time_fallback_unreachable)
    with assms s True show ?thesis
      by (simp add: findFieldForTerm_def split: if_splits)
  next
    case False
    then have "h = hd (by_score_desc (scored sh (norm t) vb))"
      using assms s by (simp add: findFieldForTerm_def)
    moreover have "by_score_desc (scored sh (norm t) vb) \<noteq> []"
      using False by (simp add: by_score_desc_def sort_key_eq_Nil)
    ultimately have "h \<in> set (scored sh (norm t) vb)"
      by (metis by_score_desc_def hd_in_set set_sort)
    then show ?thesis using s scored_member by blast
  qed
qed

text \<open>
  Claim C3, as amended. When at least one key is a candidate, \<open>findFieldForTerm\<close>
  returns a candidate with the highest score, and every candidate scanned before it has
  a strictly lower score: among candidates that tie for the highest score the one
  scanned first is returned (the sort is stable and \<open>scored[0]\<close> is taken).
\<close>

theorem C3_highest_score_first_scanned:
  assumes "t \<noteq> ''''" and "scored sh (norm t) vb \<noteq> []"
  shows "\<exists>h pre post.
           findFieldForTerm (Some sh) (Some t) vb = Some h
           \<and> scored sh (norm t) vb = pre @ h # post
           \<and> (\<forall>x. x \<in> set pre \<longrightarrow> hit_score x < hit_score h)
           \<and> (\<forall>x. x \<in> set post \<longrightarrow> hit_score x \<le> hit_score h)"
proof -
  let ?sc = "scored sh (norm t) vb"
  let ?f = "\<lambda>h. - int (hit_score h)"
  have r: "findFieldForTerm (Some sh) (Some t) vb = Some (hd (sort_key ?f ?sc))"
    using assms by (simp add: findFieldForTerm_def by_score_desc_def)
  from hd_sort_key_first_least [OF assms(2), of ?f] obtain pre post where
    "?sc = pre @ hd (sort_key ?f ?sc) # post"
    "\<forall>y. y \<in> set pre \<longrightarrow> ?f (hd (sort_key ?f ?sc)) < ?f y"
    "\<forall>y. y \<in> set post \<longrightarrow> ?f (hd (sort_key ?f ?sc)) \<le> ?f y"
    by blast
  then have "?sc = pre @ hd (sort_key ?f ?sc) # post
      \<and> (\<forall>x. x \<in> set pre \<longrightarrow> hit_score x < hit_score (hd (sort_key ?f ?sc)))
      \<and> (\<forall>x. x \<in> set post \<longrightarrow> hit_score x \<le> hit_score (hd (sort_key ?f ?sc)))"
    by simp
  with r show ?thesis by blast
qed

theorem C3_highest_score_first_scanned_witness:
  "\<exists>h pre post.
     findFieldForTerm (Some show_tie) (Some ''time'') (Some ''what time is'') = Some h
     \<and> scored show_tie (norm ''time'') (Some ''what time is'') = pre @ h # post
     \<and> (\<forall>x. x \<in> set pre \<longrightarrow> hit_score x < hit_score h)
     \<and> (\<forall>x. x \<in> set post \<longrightarrow> hit_score x \<le> hit_score h)"
proof -
  have a: "''time'' \<noteq> ''''" by simp
  have b: "scored show_tie (norm ''time'') (Some ''what time is'') \<noteq> []" by code_simp
  show ?thesis using C3_highest_score_first_scanned [OF a b] .
qed

text \<open>
  Claim C3 as stated (among tied keys the one scanned last is returned) fails: in the
  record \<open>{show_time: "20:00", doors_time: "19:00"}\<close>, asked for the term \<open>time\<close>
  with the verb \<open>what time is\<close>, both keys score 12; \<open>doors_time\<close> is scanned last,
  and \<open>show_time\<close> is returned.
\<close>

theorem C3_tie_returns_first_counterexample:
  "scored show_tie (norm ''time'') (Some ''what time is'')
     = [\<lparr>hit_k = ''show_time'', hit_score = 12, hit_val = ''20:00''\<rparr>,
        \<lparr>hit_k = ''doors_time'', hit_score = 12, hit_val = ''19:00''\<rparr>]
   \<and> findFieldForTerm (Some show_tie) (Some ''time'') (Some ''what time is'')
     = Some \<lparr>hit_k = ''show_time'', hit_score = 12, hit_val = ''20:00''\<rparr>
   \<and> findFieldForTerm (Some show_tie) (Some ''time'') (Some ''what time is'')
     \<noteq> Some \<lparr>hit_k = ''doors_time'', hit_score = 12, hit_val = ''19:00''\<rparr>"
  by code_simp

text \<open>
  Claim C8. (1) A returned key is a key of the record whose value is a string that is not
  blank after trimming. (2) Every candidate has a non-null, non-blank value and a
  strictly positive score. (3) When no key scores positively there is no candidate.
  (4) When there is no candidate, the result for a time-asking verb is the first of
  \<open>soundcheck_time\<close>, \<open>load_in_time\<close>, \<open>doors_time\<close>, \<open>show_time\<close> that is present
  with a non-blank value, with score 1, and none if there is no such key; for any other
  verb the result is none.
\<close>

theorem C8_resolved_field_not_blank:
  "(findFieldForTerm sho trm vb = Some h \<longrightarrow>
      (\<exists>sh. sho = Some sh \<and> hit_k h \<in> set (object_keys sh)
         \<and> get_field sh (hit_k h) = Some (hit_val h) \<and> trim (hit_val h) \<noteq> ''''))
   \<and> (x \<in> set (scored sh2 nT vb2) \<longrightarrow>
        get_field sh2 (hit_k x) = Some (hit_val x) \<and> trim (hit_val x) \<noteq> ''''
        \<and> 0 < hit_score x)
   \<and> (list_all (\<lambda>key. key_score (norm t3) vb3 key = 0) (object_keys sh3) \<longrightarrow>
        scored sh3 (norm t3) vb3 = [])
   \<and> (t4 \<noteq> '''' \<and> scored sh4 (norm t4) vb4 = [] \<longrightarrow>
        findFieldForTerm (Some sh4) (Some t4) vb4
          = (if timeLike vb4
             then (case find (pref_present sh4) prefs of
                     None \<Rightarrow> None
                   | Some p \<Rightarrow>
                       Some \<lparr>hit_k = p, hit_score = 1,
                             hit_val = (case get_field sh4 p of None \<Rightarrow> '''' | Some v \<Rightarrow> v)\<rparr>)
             else None))"
proof (intro conjI impI)
  assume "findFieldForTerm sho trm vb = Some h"
  then show "\<exists>sh. sho = Some sh \<and> hit_k h \<in> set (object_keys sh)
         \<and> get_field sh (hit_k h) = Some (hit_val h) \<and> trim (hit_val h) \<noteq> ''''"
    by (rule findFieldForTerm_Some_sound)
next
  assume "x \<in> set (scored sh2 nT vb2)"
  then show "get_field sh2 (hit_k x) = Some (hit_val x)"
    and "trim (hit_val x) \<noteq> ''''" and "0 < hit_score x"
    using scored_member by blast+
next
  assume "list_all (\<lambda>key. key_score (norm t3) vb3 key = 0) (object_keys sh3)"
  then show "scored sh3 (norm t3) vb3 = []"
    by (rule scored_empty_if_no_positive_score)
next
  assume "t4 \<noteq> '''' \<and> scored sh4 (norm t4) vb4 = []"
  then show "findFieldForTerm (Some sh4) (Some t4) vb4
          = (if timeLike vb4
             then (case find (pref_present sh4) prefs of
                     None \<Rightarrow> None
                   | Some p \<Rightarrow>
                       Some \<lparr>hit_k = p, hit_score = 1,
                             hit_val = (case get_field sh4 p of None \<Rightarrow> '''' | Some v \<Rightarrow> v)\<rparr>)
             else None)"
    by (simp add: findFieldForTerm_def time_fallback_def)
qed


theorem C8_resolved_field_not_blank_witness:
  "(\<exists>sh. Some show_sydney = Some sh
        \<and> hit_k \<lparr>hit_k = ''soundcheck_time'', hit_score = 12, hit_val = ''16:00''\<rparr>
            \<in> set (object_keys sh)
        \<and> get_field sh (hit_k \<lparr>hit_k = ''soundcheck_time'', hit_score = 12, hit_val = ''16:00''\<rparr>)
            = Some (hit_val \<lparr>hit_k = ''soundcheck_time'', hit_score = 12, hit_val = ''16:00''\<rparr>)
        \<and> trim (hit_val \<lparr>hit_k = ''soundcheck_time'', hit_score = 12, hit_val = ''16:00''\<rparr>)
            \<noteq> '''')
   \<and> scored show_blank (norm ''soundcheck'') (Some ''what time is'') = []
   \<and> findFieldForTerm (Some show_blank) (Some ''soundcheck'') (Some ''what time is'')
       = (if timeLike (Some ''what time is'')
          then (case find (pref_present show_blank) prefs of
                  None \<Rightarrow> None
                | Some p \<Rightarrow>
                    Some \<lparr>hit_k = p, hit_score = 1,
                          hit_val = (case get_field show_blank p of None \<Rightarrow> '''' | Some v \<Rightarrow> v)\<rparr>)
          else None)
   \<and> findFieldForTerm (Some show_blank) (Some ''soundcheck'') (Some ''what time is'') = None"
proof -
  let ?h = "\<lparr>hit_k = ''soundcheck_time'', hit_score = 12, hit_val = ''16:00''\<rparr>"
  let ?vb = "Some ''what time is''"
  have p1: "findFieldForTerm (Some show_sydney) (Some ''soundcheck'') ?vb = Some ?h"
    by code_simp
  have p2: "?h \<in> set (scored show_sydney (norm ''soundcheck'') ?vb)"
    by code_simp
  have p3: "list_all (\<lambda>key. key_score (norm ''soundcheck'') ?vb key = 0) (object_keys show_blank)"
    by code_simp
  have p4: "''soundcheck'' \<noteq> ''''"
    by simp
  have p5: "findFieldForTerm (Some show_blank) (Some ''soundcheck'') ?vb = None"
    by code_simp
  note inst = C8_resolved_field_not_blank
    [where sho = "Some show_sydney" and trm = "Some ''soundcheck''" and vb = ?vb and h = ?h
       and x = ?h and ?sh2.0 = show_sydney and nT = "norm ''soundcheck''" and ?vb2.0 = ?vb
       and ?t3.0 = "''soundcheck''" and ?vb3.0 = ?vb and ?sh3.0 = show_blank
       and ?t4.0 = "''soundcheck''" and ?sh4.0 = show_blank and ?vb4.0 = ?vb]
  have e: "scored show_blank (norm ''soundcheck'') ?vb = []"
    using inst p3 by blast
  show ?thesis
    using inst p1 p4 p5 e by blast
qed


section \<open>Properties of the intent classifier\<close>

lemma matchIntent_fast_path:
  assumes "cleanName m content = Inr cleaned"
    and "normalize_fn m content = Inr nrm"
    and "lookup_hit m nrm = Inr (Some h)"
  shows "matchIntent m content = Inr (fast_path_intent h)"
  using assms by (simp add: matchIntent_def Let_def)

lemma matchIntent_rules:
  assumes "cleanName m content = Inr cleaned"
    and "normalize_fn m content = Inr nrm"
    and "lookup_hit m nrm = Inr None"
  shows "matchIntent m content = Inr (rule_cascade (toLowerCase cleaned))"
  using assms by (simp add: matchIntent_def Let_def try_catch_rules_def try_body_def)

lemma matchIntent_raises_only_from_helpers:
  assumes "matchIntent m content = Inl e"
  shows "cleanName m content = Inl e \<or> normalize_fn m content = Inl e
         \<or> (\<exists>nrm. normalize_fn m content = Inr nrm \<and> lookup_hit m nrm = Inl e)"
  using assms
  by (auto simp: matchIntent_def Let_def split: sum.splits option.splits)

text \<open>
  Claim C4 (a fast-path hit returns \<open>intent_type "term_lookup"\<close>, the matched
  \<open>term_id\<close> and \<open>confidence 1.0\<close>, bypassing the rules). The fast path does bypass the
  rules and returns the matched id, but the object it returns has no \<open>confidence\<close>
  field: for the message \<open>showtime\<close>, which is a term of the index and also matches the
  schedule rule, the result is
  \<open>{ intent_type: "term_lookup", term_id: "showtime", entities: {} }\<close>.
\<close>

theorem C4_fast_path_without_confidence:
  "rx_test rx_schedule (toLowerCase ''showtime'')
   \<and> matchIntent demo_matcher ''showtime''
       = Inr \<lparr>intent_type = Some ''term_lookup'', term_id = Some ''showtime'',
              confidence = None, intent_entities = [], original_query = None,
              error_text = None\<rparr>
   \<and> confidence (fast_path_intent \<lparr>hit_term_id = ''showtime''\<rparr>) \<noteq> Some 1"
  by code_simp

lemma try_catch_rules_never_catches: "try_catch_rules content q = rule_cascade q"
  by (simp add: try_catch_rules_def try_body_def)

lemma matchIntent_propagates:
  "cleanName m content = Inl e \<Longrightarrow> matchIntent m content = Inl e"
  "cleanName m content = Inr cleaned \<Longrightarrow> normalize_fn m content = Inl e
     \<Longrightarrow> matchIntent m content = Inl e"
  "cleanName m content = Inr cleaned \<Longrightarrow> normalize_fn m content = Inr nrm
     \<Longrightarrow> lookup_hit m nrm = Inl e \<Longrightarrow> matchIntent m content = Inl e"
  by (simp_all add: matchIntent_def Let_def)

text \<open>
  Claim C5 (classification never raises to its caller; an exception is turned into the
  null intent that carries the original text and the error message). The \<open>catch\<close>
  block does build that intent, but it guards the rule cascade only, which cannot throw
  (lemma \<open>try_catch_rules_never_catches\<close>). The calls of \<open>cleanName\<close>, \<open>normalize\<close>,
  \<open>lookupExact\<close> and \<open>lookupInSentence\<close> stand before the \<open>try\<close> block, and an
  exception of any of them reaches the caller (lemma \<open>matchIntent_propagates\<close>). For
  the message \<open>help\<close> and a term index whose \<open>lookupExact\<close> throws, \<open>matchIntent\<close>
  raises that exception; with a working index the same message is the \<open>help\<close> intent,
  and the null intent that the claim promises is the value of the \<open>catch\<close> block.
\<close>

theorem C5_matchIntent_raises_before_try:
  "matchIntent failing_matcher ''help'' = Inl (JsError ''Error'' ''term index unavailable'')
   \<and> matchIntent demo_matcher ''help''
       = Inr \<lparr>intent_type = Some ''help'', term_id = None, confidence = Some (99 / 100),
              intent_entities = [], original_query = None, error_text = None\<rparr>
   \<and> catch_intent ''help'' (JsError ''Error'' ''term index unavailable'')
       = \<lparr>intent_type = None, term_id = None, confidence = Some 0, intent_entities = [],
          original_query = Some ''help'', error_text = Some ''term index unavailable''\<rparr>"
  by code_simp


section \<open>Properties of the timezone converter\<close>

subsection \<open>Days, years and months\<close>

lemma div_next:
  fixes x d :: int
  assumes "0 < d"
  shows "(x + 1) div d = x div d + (if (x + 1) mod d = 0 then 1 else 0)"
proof -
  define q r where "q = x div d" and "r = x mod d"
  have x: "x = d * q + r" and r: "0 \<le> r" "r < d"
    using assms by (simp_all add: q_def r_def)
  show ?thesis
  proof (cases "r + 1 = d")
    case True
    then have e: "x + 1 = d * (q + 1) + 0" using x by (simp add: algebra_simps)
    have "(x + 1) div d = q + 1" using assms by (subst e) simp
    moreover have "(x + 1) mod d = 0" by (subst e) simp
    ultimately show ?thesis by (simp add: q_def)
  next
    case False
    then have lt: "r + 1 < d" using r by simp
    have e: "x + 1 = d * q + (r + 1)" using x by simp
    have "(x + 1) div d = q"
      using int_div_pos_eq [OF e] r lt by simp
    moreover have "(x + 1) mod d = r + 1"
      using int_mod_pos_eq [OF e] r lt by simp
    ultimately show ?thesis using r by (simp add: q_def)
  qed
qed

lemma mod_shift:
  fixes y :: int
  shows "(y - d * k) mod d = y mod d"
proof -
  have "y - d * k = y + d * (- k)" by simp
  then show ?thesis by (simp only: mod_mult_self2)
qed

lemma DayFromYear_next:
  "DayFromYear (y + 1) = DayFromYear y + (if InLeapYear y then 366 else 365)"
proof -
  have m4: "(y - 1969 + 1) mod 4 = y mod 4"
    using mod_shift [of y 4 492] by simp
  have m100: "(y - 1901 + 1) mod 100 = y mod 100"
    using mod_shift [of y 100 19] by simp
  have m400: "(y - 1601 + 1) mod 400 = y mod 400"
    using mod_shift [of y 400 4] by simp
  have a: "(y - 1969 + 1) div 4 = (y - 1969) div 4 + (if y mod 4 = 0 then 1 else 0)"
    using div_next [of 4 "y - 1969"] m4 by simp
  have b: "(y - 1901 + 1) div 100 = (y - 1901) div 100 + (if y mod 100 = 0 then 1 else 0)"
    using div_next [of 100 "y - 1901"] m100 by simp
  have c: "(y - 1601 + 1) div 400 = (y - 1601) div 400 + (if y mod 400 = 0 then 1 else 0)"
    using div_next [of 400 "y - 1601"] m400 by simp
  have d1: "y mod 400 = 0 \<Longrightarrow> y mod 100 = 0"
    by (metis dvd_trans mod_eq_0_iff_dvd dvd_triv_left [of 100 4] mult.commute numeral_times_numeral semiring_norm(12,13,14))
  have e1: "y + 1 - 1969 = y - 1969 + 1" "y + 1 - 1901 = y - 1901 + 1" "y + 1 - 1601 = y - 1601 + 1"
    by simp_all
  show ?thesis
    unfolding DayFromYear_def InLeapYear_def e1 a b c by (auto dest: d1)
qed


lemma DayFromYear_add:
  "DayFromYear y + 365 * int k \<le> DayFromYear (y + int k)"
proof (induction k)
  case 0
  then show ?case by simp
next
  case (Suc k)
  have "DayFromYear (y + int (Suc k)) = DayFromYear (y + int k + 1)"
    by (simp add: ac_simps)
  also have "\<dots> \<ge> DayFromYear (y + int k) + 365"
    by (simp add: DayFromYear_next)
  finally show ?case using Suc.IH by simp
qed

lemma DayFromYear_mono: "y \<le> y' \<Longrightarrow> DayFromYear y \<le> DayFromYear y'"
  using DayFromYear_add [of y "nat (y' - y)"] by simp

lemma div_bounds:
  fixes x d :: int
  assumes "0 < d"
  shows "d * (x div d) \<le> x" and "x < d * (x div d) + d"
proof -
  have "x = d * (x div d) + x mod d" by simp
  moreover have "0 \<le> x mod d" "x mod d < d" using assms by simp_all
  ultimately show "d * (x div d) \<le> x" and "x < d * (x div d) + d" by linarith+
qed

lemma year_estimate_upper:
  assumes "400 * n < 146097 * a + 146097"
  shows "n < DayFromYear (1970 + a + 2)"
proof -
  define q4 q100 q400 where "q4 = (a + 3) div 4" and "q100 = (a + 71) div 100"
    and "q400 = (a + 371) div 400"
  have "a + 3 < 4 * q4 + 4" "100 * q100 \<le> a + 71" "a + 371 < 400 * q400 + 400"
    unfolding q4_def q100_def q400_def by (simp_all add: div_bounds)
  moreover have "DayFromYear (1970 + a + 2) = 365 * (a + 2) + q4 - q100 + q400"
    by (simp add: DayFromYear_def q4_def q100_def q400_def add.commute)
  ultimately show ?thesis using assms by (simp add: algebra_simps)
qed

lemma year_estimate_lower:
  assumes "146097 * a \<le> 400 * n"
  shows "DayFromYear (1970 + a - 1) \<le> n"
proof -
  define q4 q100 q400 where "q4 = a div 4" and "q100 = (a + 68) div 100"
    and "q400 = (a + 368) div 400"
  have "4 * q4 \<le> a" "a + 68 < 100 * q100 + 100" "400 * q400 \<le> a + 368"
    unfolding q4_def q100_def q400_def by (simp_all add: div_bounds)
  moreover have e: "DayFromYear (1970 + a - 1) = 365 * (a - 1) + q4 - q100 + q400"
    by (simp add: DayFromYear_def q4_def q100_def q400_def add.commute)
  ultimately have "400 * (365 * (a - 1) + q4 - q100 + q400) \<le> 146097 * a"
    by (simp add: algebra_simps)
  then have "400 * DayFromYear (1970 + a - 1) \<le> 400 * n"
    using assms e by simp
  then show ?thesis by simp
qed

lemma YearFromDay_spec:
  "DayFromYear (YearFromDay n) \<le> n \<and> n < DayFromYear (YearFromDay n + 1)"
proof -
  define a where "a = (400 * n) div 146097"
  have b: "146097 * a \<le> 400 * n" "400 * n < 146097 * a + 146097"
    unfolding a_def by (simp_all add: div_bounds)
  have up: "n < DayFromYear (1970 + a + 2)" using b(2) by (rule year_estimate_upper)
  have lo: "DayFromYear (1970 + a - 1) \<le> n" using b(1) by (rule year_estimate_lower)
  have e: "1970 + a + 1 + 1 = 1970 + a + 2" "1970 + a - 1 + 1 = 1970 + a" by simp_all
  show ?thesis
    using up lo by (auto simp: YearFromDay_def Let_def a_def [symmetric] e)
qed

lemma YearFromDay_unique:
  assumes "DayFromYear y \<le> n" and "n < DayFromYear (y + 1)"
  shows "YearFromDay n = y"
proof (rule ccontr)
  assume ne: "YearFromDay n \<noteq> y"
  let ?z = "YearFromDay n"
  from YearFromDay_spec [of n] have s: "DayFromYear ?z \<le> n" "n < DayFromYear (?z + 1)"
    by simp_all
  show False
  proof (cases "?z < y")
    case True
    then have "DayFromYear (?z + 1) \<le> DayFromYear y" by (intro DayFromYear_mono) simp
    with s(2) assms(1) show False by simp
  next
    case False
    with ne have "y + 1 \<le> ?z" by simp
    then have "DayFromYear (y + 1) \<le> DayFromYear ?z" by (rule DayFromYear_mono)
    with s(1) assms(2) show False by simp
  qed
qed

lemma month_round_trip:
  assumes "1 \<le> M" "M \<le> 12" "1 \<le> D" "D \<le> days_in_month lp M"
  shows "MonthFromDay lp (MonthStart lp (M - 1) + D - 1) = M - 1"
    and "0 \<le> MonthStart lp (M - 1) + D - 1"
    and "MonthStart lp (M - 1) + D - 1 < (if lp then 366 else 365)"
proof -
  have "M = 1 \<or> M = 2 \<or> M = 3 \<or> M = 4 \<or> M = 5 \<or> M = 6 \<or> M = 7 \<or> M = 8 \<or> M = 9
        \<or> M = 10 \<or> M = 11 \<or> M = 12"
    using assms(1,2) by arith
  then have "MonthFromDay lp (MonthStart lp (M - 1) + D - 1) = M - 1
      \<and> 0 \<le> MonthStart lp (M - 1) + D - 1
      \<and> MonthStart lp (M - 1) + D - 1 < (if lp then 366 else 365)"
    using assms(3,4)
    by (cases lp; elim disjE)
       (simp_all add: MonthFromDay_def MonthStart_def month_starts_def days_in_month_def)
  then show "MonthFromDay lp (MonthStart lp (M - 1) + D - 1) = M - 1"
    and "0 \<le> MonthStart lp (M - 1) + D - 1"
    and "MonthStart lp (M - 1) + D - 1 < (if lp then 366 else 365)"
    by simp_all
qed

lemma MonthFromDay_range:
  assumes "dwy < (if lp then 366 else 365)"
  shows "0 \<le> MonthFromDay lp dwy \<and> MonthFromDay lp dwy \<le> 11"
  using assms by (cases lp) (simp_all add: MonthFromDay_def month_starts_def)

lemma time_of_day_sum:
  fixes t :: int
  shows "3600 * (t div 3600) + 60 * (t div 60 mod 60) + t mod 60 = t"
proof -
  define q r q2 r2 where "q = t div 60" and "r = t mod 60" and "q2 = q div 60" and "r2 = q mod 60"
  have a: "t = 60 * q + r" by (simp add: q_def r_def)
  have b: "q = 60 * q2 + r2" by (simp add: q2_def r2_def)
  have c: "t div 3600 = q2"
    using zdiv_zmult2_eq [of 60 t 60] by (simp add: q2_def q_def)
  have "3600 * q2 + 60 * r2 + r = t"
    using a b by simp
  then show ?thesis
    by (simp add: c q_def [symmetric] r_def [symmetric] r2_def [symmetric])
qed

lemma day_within_year:
  "0 \<le> n - DayFromYear (YearFromDay n)"
  "n - DayFromYear (YearFromDay n) < (if InLeapYear (YearFromDay n) then 366 else 365)"
  using YearFromDay_spec [of n] DayFromYear_next [of "YearFromDay n"]
  by (simp_all split: if_splits)

lemma dateUTC_parts_of_ms:
  assumes "p_year (parts_of_ms x) < 0 \<or> 99 < p_year (parts_of_ms x)"
  shows "dateUTC (p_year (parts_of_ms x)) (p_month (parts_of_ms x) - 1) (p_day (parts_of_ms x))
           (p_hour (parts_of_ms x)) (p_minute (parts_of_ms x)) (p_second (parts_of_ms x))
         = (x div 1000) * 1000"
proof -
  define dn tod y lp dwy mi t where "dn = x div 86400000" and "tod = x mod 86400000"
    and "y = YearFromDay dn" and "lp = InLeapYear y" and "dwy = dn - DayFromYear y"
    and "mi = MonthFromDay lp dwy" and "t = tod div 1000"
  have p: "parts_of_ms x =
      \<lparr>p_year = y, p_month = mi + 1, p_day = dwy - MonthStart lp mi + 1,
       p_hour = tod div 3600000, p_minute = tod div 60000 mod 60,
       p_second = tod div 1000 mod 60\<rparr>"
    by (simp add: parts_of_ms_def Let_def dn_def tod_def y_def lp_def dwy_def mi_def)
  have yr: "y < 0 \<or> 99 < y" using assms by (simp add: p)
  have "dwy < (if lp then 366 else 365)"
    using day_within_year(2) [of dn] by (simp add: dwy_def y_def lp_def)
  then have mi: "0 \<le> mi" "mi \<le> 11"
    using MonthFromDay_range [of dwy lp] by (simp_all add: mi_def)
  then have md: "mi div 12 = 0" "mi mod 12 = mi" by simp_all
  have day: "MakeDay y mi (dwy - MonthStart lp mi + 1) = dn"
    by (simp add: MakeDay_def Let_def md lp_def dwy_def)
  have h: "tod div 3600000 = t div 3600"
    using zdiv_zmult2_eq [of 3600 tod 1000] by (simp add: t_def)
  have m: "tod div 60000 = t div 60"
    using zdiv_zmult2_eq [of 60 tod 1000] by (simp add: t_def)
  have time: "(tod div 3600000) * 3600000 + (tod div 60000 mod 60) * 60000
                + (tod div 1000 mod 60) * 1000 = t * 1000"
    using time_of_day_sum [of t] by (simp add: h m t_def [symmetric] algebra_simps)
  have x: "x = 86400000 * dn + tod" by (simp add: dn_def tod_def)
  have "x div 1000 = 86400 * dn + t"
  proof -
    have "x = 1000 * (86400 * dn) + tod" using x by simp
    then have "x div 1000 = (1000 * (86400 * dn) + tod) div 1000" by simp
    also have "\<dots> = 86400 * dn + tod div 1000" by (simp only: div_mult_self4)
    finally show ?thesis by (simp add: t_def)
  qed
  then have "(x div 1000) * 1000 = dn * 86400000 + t * 1000" by simp
  moreover have "dateUTC y (mi + 1 - 1) (dwy - MonthStart lp mi + 1)
           (tod div 3600000) (tod div 60000 mod 60) (tod div 1000 mod 60)
         = dn * 86400000 + t * 1000"
    using yr day time by (auto simp: dateUTC_def Let_def)
  ultimately show ?thesis by (simp add: p)
qed

lemma year_at_least_100:
  assumes "DayFromYear 100 * 86400000 \<le> x"
  shows "100 \<le> p_year (parts_of_ms x)"
proof (rule ccontr)
  assume "\<not> 100 \<le> p_year (parts_of_ms x)"
  then have y: "YearFromDay (x div 86400000) + 1 \<le> 100"
    by (simp add: parts_of_ms_def Let_def)
  have "DayFromYear 100 \<le> x div 86400000"
  proof -
    have "(DayFromYear 100 * 86400000) div 86400000 \<le> x div 86400000"
      using assms by (intro zdiv_mono1) simp_all
    then show ?thesis by simp
  qed
  moreover have "x div 86400000 < DayFromYear (YearFromDay (x div 86400000) + 1)"
    using YearFromDay_spec by simp
  moreover have "DayFromYear (YearFromDay (x div 86400000) + 1) \<le> DayFromYear 100"
    using y by (rule DayFromYear_mono)
  ultimately show False by simp
qed

lemma parts_of_ms_parts_ms:
  assumes "valid_parts f"
  shows "parts_of_ms (parts_ms f) = f"
proof -
  define Y M D h m s lp where "Y = p_year f" and "M = p_month f" and "D = p_day f"
    and "h = p_hour f" and "m = p_minute f" and "s = p_second f" and "lp = InLeapYear Y"
  define dwy tod where "dwy = MonthStart lp (M - 1) + D - 1"
    and "tod = h * 3600000 + m * 60000 + s * 1000"
  have v: "1 \<le> M" "M \<le> 12" "1 \<le> D" "D \<le> days_in_month lp M"
    "0 \<le> h" "h < 24" "0 \<le> m" "m < 60" "0 \<le> s" "s < 60"
    using assms by (simp_all add: valid_parts_def Y_def M_def D_def h_def m_def s_def lp_def)
  have mo: "MonthFromDay lp dwy = M - 1" "0 \<le> dwy" "dwy < (if lp then 366 else 365)"
    using month_round_trip [OF v(1-4)] by (simp_all add: dwy_def)
  have tod: "0 \<le> tod" "tod < 86400000"
    using v(5-10) by (simp_all add: tod_def)
  have x: "parts_ms f = 86400000 * (DayFromYear Y + dwy) + tod"
    by (simp add: parts_ms_def dwy_def tod_def Y_def M_def D_def h_def m_def s_def lp_def
        algebra_simps)
  have dn: "parts_ms f div 86400000 = DayFromYear Y + dwy"
    using int_div_pos_eq [OF x tod] .
  have td: "parts_ms f mod 86400000 = tod"
    using int_mod_pos_eq [OF x tod] .
  have yr: "YearFromDay (DayFromYear Y + dwy) = Y"
    using mo(2,3) DayFromYear_next [of Y]
    by (intro YearFromDay_unique) (simp_all add: lp_def split: if_splits)
  have hh: "tod div 3600000 = h"
  proof (rule int_div_pos_eq)
    show "tod = 3600000 * h + (m * 60000 + s * 1000)" by (simp add: tod_def)
    show "0 \<le> m * 60000 + s * 1000" "m * 60000 + s * 1000 < 3600000" using v by simp_all
  qed
  have "tod div 60000 = 60 * h + m"
  proof (rule int_div_pos_eq)
    show "tod = 60000 * (60 * h + m) + s * 1000" by (simp add: tod_def)
    show "0 \<le> s * 1000" "s * 1000 < 60000" using v by simp_all
  qed
  then have mm: "tod div 60000 mod 60 = m"
    using v by simp
  have "tod div 1000 = 60 * (60 * h + m) + s"
    by (simp add: tod_def)
  then have ss: "tod div 1000 mod 60 = s"
    using int_mod_pos_eq [of "tod div 1000" 60 "60 * h + m" s] v by simp
  have "parts_of_ms (parts_ms f) =
      \<lparr>p_year = Y, p_month = M, p_day = D, p_hour = h, p_minute = m, p_second = s\<rparr>"
    by (simp add: parts_of_ms_def Let_def dn td yr lp_def [symmetric] mo(1) hh mm ss)
       (simp add: dwy_def)
  then show ?thesis
    by (simp add: Y_def M_def D_def h_def m_def s_def)
qed

subsection \<open>Reading a formatted timestamp\<close>

lemma is_digit_cases:
  "is_digit c \<Longrightarrow>
     c = CHR ''0'' \<or> c = CHR ''1'' \<or> c = CHR ''2'' \<or> c = CHR ''3'' \<or> c = CHR ''4''
     \<or> c = CHR ''5'' \<or> c = CHR ''6'' \<or> c = CHR ''7'' \<or> c = CHR ''8'' \<or> c = CHR ''9''"
  by (simp add: is_digit_def digit_chars_def)

lemma digit_plain:
  assumes "is_digit c"
  shows "\<not> is_space c" and "c \<noteq> CHR ''-''" and "c \<noteq> CHR ''+''" and "c \<noteq> CHR ''.''"
    and "lower_char c = c" and "c \<noteq> CHR ''e''" and "c \<noteq> CHR ''x''" and "c \<noteq> CHR ''o''"
    and "c \<noteq> CHR ''b''"
proof -
  have "\<not> is_space c \<and> c \<noteq> CHR ''-'' \<and> c \<noteq> CHR ''+'' \<and> c \<noteq> CHR ''.''
      \<and> lower_char c = c \<and> c \<noteq> CHR ''e'' \<and> c \<noteq> CHR ''x'' \<and> c \<noteq> CHR ''o''
      \<and> c \<noteq> CHR ''b''"
    using is_digit_cases [OF assms]
    by (elim disjE) (simp_all add: is_space_def lower_char_def upper_chars_def lower_chars_def)
  then show "\<not> is_space c" and "c \<noteq> CHR ''-''" and "c \<noteq> CHR ''+''" and "c \<noteq> CHR ''.''"
    and "lower_char c = c" and "c \<noteq> CHR ''e''" and "c \<noteq> CHR ''x''" and "c \<noteq> CHR ''o''"
    and "c \<noteq> CHR ''b''" by simp_all
qed

lemma digit_char_props:
  assumes "0 \<le> d" "d \<le> 9"
  shows "is_digit (digit_char d)" and "digit_value (digit_char d) = d"
proof -
  have "d = 0 \<or> d = 1 \<or> d = 2 \<or> d = 3 \<or> d = 4 \<or> d = 5 \<or> d = 6 \<or> d = 7 \<or> d = 8 \<or> d = 9"
    using assms by arith
  then have "is_digit (digit_char d) \<and> digit_value (digit_char d) = d"
    by (elim disjE)
       (simp_all add: is_digit_def digit_char_def digit_chars_def digit_value_def hex_chars_def
          lower_char_def upper_chars_def lower_chars_def)
  then show "is_digit (digit_char d)" and "digit_value (digit_char d) = d" by simp_all
qed

lemma trim_no_space:
  assumes "list_all (\<lambda>c. \<not> is_space c) s"
  shows "trim s = s"
proof -
  have a: "dropWhile is_space s = s"
    using assms by (cases s) simp_all
  have "list_all (\<lambda>c. \<not> is_space c) (rev s)" using assms by (simp add: list_all_iff)
  then have "dropWhile is_space (rev s) = rev s"
    by (cases "rev s") simp_all
  then show ?thesis by (simp add: trim_def a)
qed

lemma to_number_digits:
  assumes "s \<noteq> []" and "list_all is_digit s"
  shows "to_number s = Some (of_int (digits_value 10 s))"
proof -
  have all: "\<And>c. c \<in> set s \<Longrightarrow> is_digit c" using assms(2) by (simp add: list_all_iff)
  have "list_all (\<lambda>c. \<not> is_space c) s"
    using all digit_plain(1) by (auto simp: list_all_iff)
  then have t: "trim s = s" by (rule trim_no_space)
  have r: "radix_literal s = None"
  proof (cases s)
    case Nil
    then show ?thesis by (simp add: radix_literal_def)
  next
    case (Cons z rest)
    show ?thesis
    proof (cases rest)
      case Nil
      with Cons show ?thesis by (simp add: radix_literal_def)
    next
      case (Cons p ds)
      then have "is_digit p" using all \<open>s = z # rest\<close> by simp
      then have "lower_char p \<noteq> CHR ''x''" "lower_char p \<noteq> CHR ''o''" "lower_char p \<noteq> CHR ''b''"
        using digit_plain(5,7,8,9) [of p] by simp_all
      then show ?thesis using Cons \<open>s = z # rest\<close> by (simp add: radix_literal_def Let_def)
    qed
  qed
  obtain c cs where s: "s = c # cs" using assms(1) by (cases s) auto
  then have "is_digit c" using all by simp
  then have sg: "strip_sign s = (False, s)"
    using digit_plain(2,3) [of c] s by (simp add: strip_sign_def)
  have noe: "\<And>c. c \<in> set s \<Longrightarrow> \<not> lower_char c = CHR ''e''"
    using all digit_plain(5,6) by metis
  then have tw: "takeWhile (\<lambda>c. \<not> lower_char c = CHR ''e'') s = s"
    and dw: "dropWhile (\<lambda>c. \<not> lower_char c = CHR ''e'') s = []"
    by (simp_all add: takeWhile_eq_all_conv)
  have twd: "takeWhile is_digit s = s" and dwd: "dropWhile is_digit s = []"
    using all by (simp_all add: takeWhile_eq_all_conv)
  have m: "mantissa s = Some (of_int (digits_value 10 s))"
    using assms(1) by (simp add: mantissa_def Let_def twd dwd)
  have e: "exponent [] = Some 0" by (simp add: exponent_def)
  have "decimal_literal s = Some (of_int (digits_value 10 s))"
    by (simp add: decimal_literal_def Let_def sg tw dw m e scale10_def)
  then show ?thesis
    using assms(1) by (simp add: to_number_def Let_def t r)
qed

lemma to_number_pad2:
  assumes "0 \<le> n" "n \<le> 99"
  shows "to_number (pad2 n) = Some (of_int n)"
proof -
  have d: "0 \<le> n div 10" "n div 10 \<le> 9" "0 \<le> n mod 10" "n mod 10 \<le> 9"
    using assms by simp_all
  have "to_number (pad2 n) = Some (of_int (digits_value 10 (pad2 n)))"
    using digit_char_props(1) [OF d(1,2)] digit_char_props(1) [OF d(3,4)]
    by (intro to_number_digits) (simp_all add: pad2_def)
  moreover have "digits_value 10 (pad2 n) = n"
    using digit_char_props(2) [OF d(1,2)] digit_char_props(2) [OF d(3,4)]
    by (simp add: digits_value_def pad2_def)
  ultimately show ?thesis by simp
qed

lemma to_number_pad4:
  assumes "0 \<le> n" "n \<le> 9999"
  shows "to_number (pad4 n) = Some (of_int n)"
proof -
  define a b c d where "a = n div 1000" and "b = n div 100 mod 10" and "c = n div 10 mod 10"
    and "d = n mod 10"
  have r: "0 \<le> a" "a \<le> 9" "0 \<le> b" "b \<le> 9" "0 \<le> c" "c \<le> 9" "0 \<le> d" "d \<le> 9"
    using assms by (simp_all add: a_def b_def c_def d_def)
  have p: "pad4 n = [digit_char a, digit_char b, digit_char c, digit_char d]"
    by (simp add: pad4_def a_def b_def c_def d_def)
  have "to_number (pad4 n) = Some (of_int (digits_value 10 (pad4 n)))"
    using digit_char_props(1) [OF r(1,2)] digit_char_props(1) [OF r(3,4)]
      digit_char_props(1) [OF r(5,6)] digit_char_props(1) [OF r(7,8)]
    by (intro to_number_digits) (simp_all add: p)
  moreover have "digits_value 10 (pad4 n) = 1000 * a + 100 * b + 10 * c + d"
    using digit_char_props(2) [OF r(1,2)] digit_char_props(2) [OF r(3,4)]
      digit_char_props(2) [OF r(5,6)] digit_char_props(2) [OF r(7,8)]
    by (simp add: digits_value_def p)
  moreover have "1000 * a + 100 * b + 10 * c + d = n"
  proof -
    have q1: "n div 10 div 10 = n div 100"
      using zdiv_zmult2_eq [of 10 n 10] by simp
    have q2: "n div 100 div 10 = n div 1000"
      using zdiv_zmult2_eq [of 10 n 100] by simp
    have e1: "n = 10 * (n div 10) + d" by (simp add: d_def)
    have e2: "n div 10 = 10 * (n div 100) + c"
      using mult_div_mod_eq [of 10 "n div 10"] by (simp only: q1 c_def)
    have e3: "n div 100 = 10 * a + b"
      using mult_div_mod_eq [of 10 "n div 100"] by (simp only: q2 a_def b_def)
    show ?thesis using e1 e2 e3 by linarith
  qed
  ultimately show ?thesis by simp
qed

lemma trunc_of_int: "trunc (of_int n) = n"
  by (simp add: trunc_def)

lemma dateUTC_parts_ms:
  assumes "100 \<le> p_year f" "1 \<le> p_month f" "p_month f \<le> 12"
  shows "dateUTC (p_year f) (p_month f - 1) (p_day f) (p_hour f) (p_minute f) (p_second f)
         = parts_ms f"
proof -
  have "(p_month f - 1) div 12 = 0" and "(p_month f - 1) mod 12 = p_month f - 1"
    using assms(2,3) by simp_all
  then show ?thesis
    using assms(1) by (simp add: dateUTC_def MakeDay_def parts_ms_def Let_def)
qed

lemma parts_ms_whole_seconds: "1000 dvd parts_ms f"
proof -
  have "parts_ms f =
      1000 * ((DayFromYear (p_year f) + MonthStart (InLeapYear (p_year f)) (p_month f - 1)
                + p_day f - 1) * 86400
              + p_hour f * 3600 + p_minute f * 60 + p_second f)"
    by (simp add: parts_ms_def algebra_simps)
  then show ?thesis by (simp only: dvd_triv_left)
qed

lemma parts_ms_range:
  assumes "valid_parts f" "0 \<le> p_year f" "p_year f \<le> 9999"
  shows "\<bar>parts_ms f\<bar> \<le> 8640000000000000"
proof -
  define dwy where "dwy = MonthStart (InLeapYear (p_year f)) (p_month f - 1) + p_day f - 1"
  have d: "0 \<le> dwy" "dwy < 366"
    using month_round_trip(2,3) [of "p_month f" "p_day f" "InLeapYear (p_year f)"] assms(1)
    by (simp_all add: valid_parts_def dwy_def split: if_splits)
  have lo: "DayFromYear 0 \<le> DayFromYear (p_year f)"
    using assms(2) by (rule DayFromYear_mono)
  have hi: "DayFromYear (p_year f) \<le> DayFromYear 9999"
    using assms(3) by (rule DayFromYear_mono)
  have l0: "DayFromYear 0 = - 719528" by (simp add: DayFromYear_def)
  have h0: "DayFromYear 9999 = 2932532" by (simp add: DayFromYear_def)
  have t: "0 \<le> p_hour f" "p_hour f < 24" "0 \<le> p_minute f" "p_minute f < 60"
    "0 \<le> p_second f" "p_second f < 60"
    using assms(1) by (simp_all add: valid_parts_def)
  have "parts_ms f = (DayFromYear (p_year f) + dwy) * 86400000
      + p_hour f * 3600000 + p_minute f * 60000 + p_second f * 1000"
    by (simp add: parts_ms_def dwy_def algebra_simps)
  then show ?thesis
    using d lo hi t unfolding l0 h0 by (simp add: abs_le_iff algebra_simps)
qed

lemma slices_iso_minutes:
  "slice 0 4 (iso_minutes f) = pad4 (p_year f)"
  "slice 5 7 (iso_minutes f) = pad2 (p_month f)"
  "slice 8 10 (iso_minutes f) = pad2 (p_day f)"
  "slice 11 13 (iso_minutes f) = pad2 (p_hour f)"
  "slice 14 16 (iso_minutes f) = pad2 (p_minute f)"
  "slice 17 19 (iso_minutes f) = []"
  by (simp_all add: slice_def iso_minutes_def pad2_def pad4_def)

lemma slices_iso_seconds:
  "slice 0 4 (iso_seconds f) = pad4 (p_year f)"
  "slice 5 7 (iso_seconds f) = pad2 (p_month f)"
  "slice 8 10 (iso_seconds f) = pad2 (p_day f)"
  "slice 11 13 (iso_seconds f) = pad2 (p_hour f)"
  "slice 14 16 (iso_seconds f) = pad2 (p_minute f)"
  "slice 17 19 (iso_seconds f) = pad2 (p_second f)"
  by (simp_all add: slice_def iso_seconds_def iso_minutes_def pad2_def pad4_def)

lemma or_zero_pad2: "or_zero (pad2 n) = pad2 n"
  by (simp add: or_zero_def pad2_def)

lemma to_number_zero: "to_number (or_zero []) = Some 0"
proof -
  have "to_number ''0'' = Some (of_int (digits_value 10 ''0''))"
    by (intro to_number_digits) (simp_all add: is_digit_def digit_chars_def)
  then show ?thesis
    by (simp add: or_zero_def digits_value_def digit_value_def hex_chars_def lower_char_def
        upper_chars_def lower_chars_def)
qed

lemma day_at_most_31: "1 \<le> m \<Longrightarrow> m \<le> 12 \<Longrightarrow> days_in_month lp m \<le> 31"
proof -
  assume "1 \<le> m" "m \<le> 12"
  then have "m = 1 \<or> m = 2 \<or> m = 3 \<or> m = 4 \<or> m = 5 \<or> m = 6 \<or> m = 7 \<or> m = 8 \<or> m = 9
      \<or> m = 10 \<or> m = 11 \<or> m = 12" by arith
  then show ?thesis by (elim disjE) (simp_all add: days_in_month_def)
qed

lemma local_base_iso:
  assumes v: "valid_parts f" and y: "100 \<le> p_year f" "p_year f \<le> 9999"
  shows "local_base (iso_seconds f) = Some (parts_ms f)"
    and "p_second f = 0 \<Longrightarrow> local_base (iso_minutes f) = Some (parts_ms f)"
proof -
  have r: "1 \<le> p_month f" "p_month f \<le> 12" "1 \<le> p_day f" "0 \<le> p_hour f" "p_hour f < 24"
    "0 \<le> p_minute f" "p_minute f < 60" "0 \<le> p_second f" "p_second f < 60"
    "p_day f \<le> days_in_month (InLeapYear (p_year f)) (p_month f)"
    using v by (simp_all add: valid_parts_def)
  have d: "p_day f \<le> 31"
    using r(10) day_at_most_31 [OF r(1,2), of "InLeapYear (p_year f)"] by simp
  have nY: "to_number (pad4 (p_year f)) = Some (of_int (p_year f))"
    using y by (intro to_number_pad4) simp_all
  have nM: "to_number (pad2 (p_month f)) = Some (of_int (p_month f))"
    using r by (intro to_number_pad2) simp_all
  have nD: "to_number (pad2 (p_day f)) = Some (of_int (p_day f))"
    using r d by (intro to_number_pad2) simp_all
  have nh: "to_number (pad2 (p_hour f)) = Some (of_int (p_hour f))"
    using r by (intro to_number_pad2) simp_all
  have nm: "to_number (pad2 (p_minute f)) = Some (of_int (p_minute f))"
    using r by (intro to_number_pad2) simp_all
  have ns: "to_number (pad2 (p_second f)) = Some (of_int (p_second f))"
    using r by (intro to_number_pad2) simp_all
  have m1: "trunc (of_int (p_month f) - 1) = p_month f - 1"
    using trunc_of_int [of "p_month f - 1"] by simp
  have u: "dateUTC (p_year f) (p_month f - 1) (p_day f) (p_hour f) (p_minute f) (p_second f)
      = parts_ms f"
    using y(1) r(1,2) by (rule dateUTC_parts_ms)
  have c: "TimeClip (parts_ms f) = Some (parts_ms f)"
    using parts_ms_range [OF v _ y(2)] y(1) by (simp add: TimeClip_def)
  show "local_base (iso_seconds f) = Some (parts_ms f)"
    by (simp add: local_base_def slices_iso_seconds or_zero_pad2 nY nM nD nh nm ns
        trunc_of_int m1 u c)
  assume s0: "p_second f = 0"
  have t0: "trunc 0 = 0" by (simp add: trunc_def)
  have u0: "dateUTC (p_year f) (p_month f - 1) (p_day f) (p_hour f) (p_minute f) 0 = parts_ms f"
    using u s0 by simp
  show "local_base (iso_minutes f) = Some (parts_ms f)"
    by (simp add: local_base_def slices_iso_minutes or_zero_pad2 to_number_zero nY nM nD nh nm
        trunc_of_int m1 t0 u0 c)
qed

subsection \<open>The offset read back from the formatter\<close>

lemma DayFromYear_100: "DayFromYear 100 = - 683003"
  by (simp add: DayFromYear_def)

lemma getOffsetMinutesAt_exact:
  assumes "1000 dvd u" and "- 683003 * 86400000 \<le> u + z u * 60000"
  shows "getOffsetMinutesAt z u = z u"
proof -
  have y: "100 \<le> p_year (parts_of_ms (u + z u * 60000))"
    using assms(2) by (intro year_at_least_100) (simp add: DayFromYear_100)
  have "1000 dvd u + z u * 60000" using assms(1) by simp
  then have w: "(u + z u * 60000) div 1000 * 1000 = u + z u * 60000" by simp
  have "dateUTC (p_year (parts_of_ms (u + z u * 60000)))
          (p_month (parts_of_ms (u + z u * 60000)) - 1) (p_day (parts_of_ms (u + z u * 60000)))
          (p_hour (parts_of_ms (u + z u * 60000))) (p_minute (parts_of_ms (u + z u * 60000)))
          (p_second (parts_of_ms (u + z u * 60000)))
        = u + z u * 60000"
    using dateUTC_parts_of_ms [of "u + z u * 60000"] y w by simp
  then show ?thesis
    by (simp add: getOffsetMinutesAt_def formatToParts_def Let_def)
qed

lemma parts_of_ms_month: "1 \<le> p_month (parts_of_ms x) \<and> p_month (parts_of_ms x) \<le> 12"
  using MonthFromDay_range [OF day_within_year(2) [of "x div 86400000"]]
  by (simp add: parts_of_ms_def Let_def)

lemma formatToParts_inverse:
  assumes "formatToParts z u = f" and "100 \<le> p_year f"
  shows "parts_ms f = (u + z u * 60000) div 1000 * 1000"
proof -
  have f: "f = parts_of_ms (u + z u * 60000)" using assms(1) by (simp add: formatToParts_def)
  have "dateUTC (p_year f) (p_month f - 1) (p_day f) (p_hour f) (p_minute f) (p_second f)
      = (u + z u * 60000) div 1000 * 1000"
    unfolding f using dateUTC_parts_of_ms [of "u + z u * 60000"] assms(2) f by simp
  moreover have "dateUTC (p_year f) (p_month f - 1) (p_day f) (p_hour f) (p_minute f) (p_second f)
      = parts_ms f"
    using assms(2) parts_of_ms_month [of "u + z u * 60000"] f by (intro dateUTC_parts_ms) simp_all
  ultimately show ?thesis by simp
qed

lemma two_pass_round_trip:
  assumes win: "\<forall>u. \<bar>u - base\<bar> \<le> w \<longrightarrow> z u = (if u < T then a else b)"
    and a: "\<bar>a\<bar> * 60000 \<le> w" and b: "\<bar>b\<bar> * 60000 \<le> w" and w: "w \<le> 86400000"
    and dvd: "1000 dvd base" and lo: "- 683001 * 86400000 \<le> base"
    and ex: "\<bar>u - base\<bar> \<le> w" "u + z u * 60000 = base"
  shows "two_pass z base + z (two_pass z base) * 60000 = base"
proof -
  have w0: "0 \<le> w" using a by linarith
  have zb: "z base = (if base < T then a else b)"
    using win w0 by simp
  have za: "z (base - a * 60000) = (if base - a * 60000 < T then a else b)"
    using win a by simp
  have zbb: "z (base - b * 60000) = (if base - b * 60000 < T then a else b)"
    using win b by simp
  have zu: "z u = (if u < T then a else b)" using win ex(1) by simp
  have exist: "base - a * 60000 < T \<or> T \<le> base - b * 60000"
    using ex(2) zu by (cases "u < T") auto
  have ab: "- w \<le> a * 60000" "- w \<le> b * 60000" "a * 60000 \<le> w" "b * 60000 \<le> w"
    using a b by (simp_all add: abs_le_iff abs_mult) 
  have zb_lo: "- w \<le> z base * 60000" "z base * 60000 \<le> w"
    using zb ab by (simp_all split: if_splits)
  have off1: "getOffsetMinutesAt z base = z base"
    using dvd lo zb_lo w by (intro getOffsetMinutesAt_exact) simp_all
  define o2 where "o2 = z (base - z base * 60000)"
  have o2ab: "o2 = (if base - z base * 60000 < T then a else b)"
    unfolding o2_def using za zbb zb by (cases "base < T") simp_all
  have o2_lo: "- w \<le> o2 * 60000"
    using o2ab ab by (simp split: if_splits)
  have d1: "1000 dvd (base - z base * 60000)" using dvd by simp
  have off2: "getOffsetMinutesAt z (base - z base * 60000) = o2"
    unfolding o2_def using d1 lo zb_lo o2_lo w
    by (intro getOffsetMinutesAt_exact) (simp_all add: o2_def)
  have tp: "two_pass z base = base - o2 * 60000"
    by (simp add: two_pass_def Let_def off1 off2)
  have fixpt: "z (base - o2 * 60000) = o2"
    using o2ab zb za zbb exist by (auto split: if_splits)
  show ?thesis using tp fixpt by simp
qed

subsection \<open>The round trip\<close>

text \<open>
  The instant below is inside the hour that Sydney skipped on 2025-10-05 (clocks went from
  02:00 to 03:00): no instant at all is shown as 02:30:00 on that day.
\<close>

lemma sydney_gap_has_no_instant: "formatToParts sydney_2025 u \<noteq> half_past_two"
proof
  assume eq: "formatToParts sydney_2025 u = half_past_two"
  have "100 \<le> p_year half_past_two" by (simp add: half_past_two_def)
  with eq have "parts_ms half_past_two = (u + sydney_2025 u * 60000) div 1000 * 1000"
    by (rule formatToParts_inverse)
  moreover have "parts_ms half_past_two = 1759631400000"
    by (simp add: parts_ms_def half_past_two_def DayFromYear_def InLeapYear_def MonthStart_def
        month_starts_def)
  ultimately have e: "(u + sydney_2025 u * 60000) div 1000 * 1000 = 1759631400000" by simp
  have "1000 * ((u + sydney_2025 u * 60000) div 1000) \<le> u + sydney_2025 u * 60000"
    and "u + sydney_2025 u * 60000 < 1000 * ((u + sydney_2025 u * 60000) div 1000) + 1000"
    by (rule div_bounds, simp)+
  with e have "1759631400000 \<le> u + sydney_2025 u * 60000"
    and "u + sydney_2025 u * 60000 < 1759631401000" by simp_all
  then show False
    by (simp add: sydney_2025_def split: if_splits)
qed

text \<open>
  Claim C2, as amended. Let \<open>f\<close> be the fields (year, month, day, hour, minute, second)
  of a date of the calendar and a time of day, with a year from 0101 to 9999, and let
  \<open>z\<close> be a zone with whole-minute offsets that shows \<open>f\<close> at some instant \<open>u\<close> (a whole
  second). Let the offset of \<open>z\<close> change at most once (at \<open>T\<close>, from \<open>a\<close> to \<open>b\<close>
  minutes) among the instants within \<open>w\<close> milliseconds of \<open>f\<close> read as UTC, where \<open>w\<close>
  is at most a day and covers both offsets and \<open>u\<close>. Then the conversion of the text
  \<open>YYYY-MM-DDTHH:MM:SS\<close> of \<open>f\<close> returns an instant that the formatter of \<open>z\<close> shows
  as \<open>f\<close>, field by field; when the second is 0, the text \<open>YYYY-MM-DDTHH:MM\<close> gives the
  same instant.
\<close>

theorem C2_round_trip_existing_local_time:
  assumes "db tz = Some z"
    and "valid_parts f" and "101 \<le> p_year f" and "p_year f \<le> 9999"
    and "1000 dvd u" and "formatToParts z u = f" and "\<bar>u - parts_ms f\<bar> \<le> w"
    and "\<forall>v. \<bar>v - parts_ms f\<bar> \<le> w \<longrightarrow> z v = (if v < T then a else b)"
    and "\<bar>a\<bar> * 60000 \<le> w" and "\<bar>b\<bar> * 60000 \<le> w" and "w \<le> 86400000"
  shows "\<exists>r. zonedLocalToEpochMs db (iso_seconds f) tz = Inr r
             \<and> formatToParts z r = f
             \<and> (p_second f = 0 \<longrightarrow> zonedLocalToEpochMs db (iso_minutes f) tz = Inr r)"
proof -
  have y: "100 \<le> p_year f" using assms(3) by simp
  have base: "local_base (iso_seconds f) = Some (parts_ms f)"
    using assms(2) y assms(4) by (rule local_base_iso(1))
  have base': "p_second f = 0 \<Longrightarrow> local_base (iso_minutes f) = Some (parts_ms f)"
    using assms(2) y assms(4) by (rule local_base_iso(2))
  have "1000 dvd u + z u * 60000" using assms(5) by simp
  then have "(u + z u * 60000) div 1000 * 1000 = u + z u * 60000" by simp
  then have u: "u + z u * 60000 = parts_ms f"
    using formatToParts_inverse [OF assms(6) y] by simp
  have "DayFromYear 101 \<le> DayFromYear (p_year f)"
    using assms(3) by (rule DayFromYear_mono)
  moreover have "DayFromYear 101 = - 682638" by (simp add: DayFromYear_def)
  moreover have "0 \<le> MonthStart (InLeapYear (p_year f)) (p_month f - 1) + p_day f - 1"
    using month_round_trip(2) [of "p_month f" "p_day f" "InLeapYear (p_year f)"] assms(2)
    by (simp add: valid_parts_def)
  moreover have "0 \<le> p_hour f" "0 \<le> p_minute f" "0 \<le> p_second f"
    using assms(2) by (simp_all add: valid_parts_def)
  ultimately have lo: "- 683001 * 86400000 \<le> parts_ms f"
    by (simp add: parts_ms_def algebra_simps)
  have "two_pass z (parts_ms f) + z (two_pass z (parts_ms f)) * 60000 = parts_ms f"
    using assms(8,9,10,11) parts_ms_whole_seconds lo assms(7) u by (rule two_pass_round_trip)
  then have "formatToParts z (two_pass z (parts_ms f)) = parts_of_ms (parts_ms f)"
    by (simp add: formatToParts_def)
  then have shown: "formatToParts z (two_pass z (parts_ms f)) = f"
    using parts_of_ms_parts_ms [OF assms(2)] by simp
  show ?thesis
    using assms(1) base base' shown by (simp add: zonedLocalToEpochMs_def)
qed

theorem C2_round_trip_existing_local_time_witness:
  "\<exists>r. zonedLocalToEpochMs demo_tzdb ''2025-10-05T03:30:00'' ''Australia/Sydney'' = Inr r
       \<and> formatToParts sydney_2025 r = half_past_three
       \<and> zonedLocalToEpochMs demo_tzdb ''2025-10-05T03:30'' ''Australia/Sydney'' = Inr r"
proof -
  have a: "demo_tzdb ''Australia/Sydney'' = Some sydney_2025"
    by (simp add: demo_tzdb_def)
  have v: "valid_parts half_past_three" by code_simp
  have y: "101 \<le> p_year half_past_three" "p_year half_past_three \<le> 9999"
    by (simp_all add: half_past_three_def)
  have pm: "parts_ms half_past_three = 1759635000000" by code_simp
  have d: "1000 dvd (1759595400000 :: int)" by simp
  have f: "formatToParts sydney_2025 1759595400000 = half_past_three" by code_simp
  have n: "\<bar>1759595400000 - parts_ms half_past_three\<bar> \<le> 86400000"
    unfolding pm by simp
  have c: "\<forall>v. \<bar>v - parts_ms half_past_three\<bar> \<le> 86400000 \<longrightarrow>
             sydney_2025 v = (if v < 1759593600000 then 600 else 660)"
    unfolding pm by (auto simp: sydney_2025_def)
  have o: "\<bar>600\<bar> * 60000 \<le> (86400000::int)" "\<bar>660\<bar> * 60000 \<le> (86400000::int)"
    "(86400000::int) \<le> 86400000"
    by simp_all
  have s: "iso_seconds half_past_three = ''2025-10-05T03:30:00''" by code_simp
  have m: "iso_minutes half_past_three = ''2025-10-05T03:30''" by code_simp
  have z: "p_second half_past_three = 0" by (simp add: half_past_three_def)
  show ?thesis
    using C2_round_trip_existing_local_time
      [where db = demo_tzdb and tz = "''Australia/Sydney''" and z = sydney_2025
         and f = half_past_three and u = 1759595400000 and w = 86400000
         and T = 1759593600000 and a = 600 and b = 660, OF a v y d f n c o]
    unfolding s m using z by simp
qed

text \<open>
  Claim C2 as stated (every timestamp and every zone, also on a transition date) fails in
  two ways. A timestamp that the zone skips: \<open>2025-10-05T02:30:00\<close> in Australia/Sydney
  is converted to 2025-10-04T16:30:00Z, which the zone shows as 03:30:00. A year below
  100, which \<open>Date.UTC\<close> reads as a year of the twentieth century:
  \<open>0099-01-01T00:00:00\<close> in UTC is converted to the first instant of 1999.
\<close>

theorem C2_skipped_local_time_counterexample:
  "iso_seconds half_past_two = ''2025-10-05T02:30:00''
   \<and> zonedLocalToEpochMs demo_tzdb ''2025-10-05T02:30:00'' ''Australia/Sydney''
       = Inr 1759595400000
   \<and> formatToParts sydney_2025 1759595400000 = half_past_three
   \<and> half_past_three \<noteq> half_past_two
   \<and> zonedLocalToEpochMs demo_tzdb ''0099-01-01T00:00:00'' ''UTC'' = Inr 915148800000
   \<and> p_year (formatToParts (\<lambda>u. 0) 915148800000) = 1999"
  by code_simp


section \<open>Properties of the retrieval orchestrator\<close>

lemma rx_flight_nonempty: "rx_test rx_flight q \<Longrightarrow> q \<noteq> ''''"
proof
  assume "rx_test rx_flight q" "q = ''''"
  moreover have "\<not> rx_test rx_flight ''''" by code_simp
  ultimately show False by simp
qed

lemma listed_before_cut_indep:
  "listed_before_cut (env\<lparr>getShows := g, resolveAnswer := ra\<rparr>) opts = listed_before_cut env opts"
  by (simp add: listed_before_cut_def today_filter_def city_filter_def same_city_def
      split: sum.splits option.splits)

lemma formatUpcomingFlights_indep:
  "formatUpcomingFlights (env\<lparr>getShows := g, resolveAnswer := ra\<rparr>) limit opts
     = formatUpcomingFlights env limit opts"
  by (simp add: formatUpcomingFlights_def listed_before_cut_indep split: sum.splits)

text \<open>
  Claim C9, as amended. When the normalized text of the parsed query holds the word
  \<open>flight\<close> or \<open>flights\<close> between word boundaries (the test \<open>/\bflight(s)?\b/\<close> of the
  source), \<open>retrieveData\<close> takes the flight branch, whatever the extracted entities are:
  when \<open>formatUpcomingFlights(10, ...)\<close> returns, the result is its text as a
  \<open>travelSchedule\<close>; when that call throws, \<open>retrieveData\<close> throws the same exception.
  In both cases the result does not depend on the show source or the answer store, which
  the term and city branches read.
\<close>

theorem C9_flight_mention_routes_to_travel:
  assumes "rx_test rx_flight (normalized p)"
  shows "retrieveData env eng p
           = (case formatUpcomingFlights env 10
                     (if truthy (snd (classify_entities eng (entities p)))
                      then flight_defaults\<lparr>toCity := snd (classify_entities eng (entities p))\<rparr>
                      else flight_defaults) of
                Inl e \<Rightarrow> Inl e
              | Inr txt \<Rightarrow> Inr (Some (TravelSchedule txt)))
         \<and> retrieveData (env\<lparr>getShows := g, resolveAnswer := ra\<rparr>) eng p = retrieveData env eng p"
proof -
  have ne: "normalized p \<noteq> ''''" using assms by (rule rx_flight_nonempty)
  show ?thesis
    using assms ne by (simp add: retrieveData_def Let_def formatUpcomingFlights_indep)
qed

theorem C9_flight_mention_routes_to_travel_witness:
  "retrieveData demo_platform demo_engine demo_parsed = Inr (Some (TravelSchedule ''QF141''))"
proof -
  have a: "rx_test rx_flight (normalized demo_parsed)" by code_simp
  have "retrieveData demo_platform demo_engine demo_parsed
          = (case formatUpcomingFlights demo_platform 10
                     (if truthy (snd (classify_entities demo_engine (entities demo_parsed)))
                      then flight_defaults\<lparr>toCity := snd (classify_entities demo_engine (entities demo_parsed))\<rparr>
                      else flight_defaults) of
                Inl e \<Rightarrow> Inl e
              | Inr txt \<Rightarrow> Inr (Some (TravelSchedule txt)))"
    using C9_flight_mention_routes_to_travel [OF a] by (rule conjunct1)
  also have "\<dots> = Inr (Some (TravelSchedule ''QF141''))"
    by code_simp
  finally show ?thesis .
qed

text \<open>
  Claim C9 as stated (a \<open>travelSchedule\<close> result for every query that mentions a flight)
  fails when the flight table holds a row whose departure time is not a timestamp: for
  the query \<open>when is my flight to auckland\<close> and a table with the departure time
  \<open>tomorrow\<close>, \<open>retrieveData\<close> returns nothing and throws a \<open>RangeError\<close>.
\<close>

theorem C9_malformed_row_counterexample:
  "rx_test rx_flight (normalized demo_parsed)
   \<and> retrieveData bad_row_platform demo_engine demo_parsed
       = Inl (JsError ''RangeError'' ''Invalid time value'')"
  by code_simp


section \<open>Properties of the flight scheduler\<close>













section \<open>Properties of the response generator\<close>

lemma show_schedule_type: "show_schedule env req = Inr r \<Longrightarrow> rtype r = ''schedule''"
  by (auto simp: show_schedule_def Let_def split: sum.splits if_splits)

lemma term_lookup_type: "term_lookup env eng req i = Inr r \<Longrightarrow> rtype r = ''answer''"
  by (auto simp: term_lookup_def Let_def split: sum.splits option.splits if_splits)

lemma travel_returns: "\<exists>r. travel env eng req = Inr r \<and> (rtype r = ''schedule'' \<or> rtype r = ''error'')"
  by (auto simp: travel_def Let_def split: sum.splits)

lemma dispatch_type: "dispatch env eng req = Inr r \<Longrightarrow> rtype r \<in> set response_types"
  using show_schedule_type [of env req r] term_lookup_type [of env eng req _ r]
    travel_returns [of env eng req]
  by (auto simp: dispatch_def response_types_def split: option.splits if_splits)

text \<open>
  Claim C7. For every request, \<open>generateResponse\<close> returns a response object (no
  exception reaches the caller) whose type is one of \<open>answer\<close>, \<open>schedule\<close>, \<open>help\<close>,
  \<open>fallback\<close>, \<open>unknown\<close>, \<open>error\<close>. What a handler returns is returned unchanged, and
  an exception inside the outer \<open>try\<close> block becomes the \<open>error\<close> response that carries
  the message of the exception: so it is when the show source throws under the
  \<open>show_schedule\<close> intent, and when the retrieval throws under the \<open>term_lookup\<close>
  intent. Under the \<open>travel\<close> intent an exception of the flight lookup becomes the
  \<open>error\<close> response of the handler's own \<open>catch\<close> block.
\<close>

theorem C7_generateResponse_always_responds:
  "(\<exists>r. generateResponse env eng req = Inr r \<and> rtype r \<in> set response_types)
   \<and> (\<forall>r. dispatch env eng req = Inr r \<longrightarrow> generateResponse env eng req = Inr r)
   \<and> (\<forall>e. dispatch env eng req = Inl e \<longrightarrow>
          generateResponse env eng req
            = Inr \<lparr>rtype = ''error'',
                   rtext = ''Sorry, something went wrong while generating a response.'',
                   rerror = Some (error_message e)\<rparr>)
   \<and> (\<forall>i e. req_intent req = Some i \<and> intent_type i = Some ''show_schedule''
            \<and> getShows env = Inl e \<longrightarrow>
          generateResponse env eng req
            = Inr \<lparr>rtype = ''error'',
                   rtext = ''Sorry, something went wrong while generating a response.'',
                   rerror = Some (error_message e)\<rparr>)
   \<and> (\<forall>i e. req_intent req = Some i \<and> intent_type i = Some ''term_lookup''
            \<and> retrieveData env eng (parseMessage eng (str (req_message req))) = Inl e \<longrightarrow>
          generateResponse env eng req
            = Inr \<lparr>rtype = ''error'',
                   rtext = ''Sorry, something went wrong while generating a response.'',
                   rerror = Some (error_message e)\<rparr>)
   \<and> (\<forall>i e. req_intent req = Some i \<and> intent_type i = Some ''travel''
            \<and> formatUpcomingFlights env
                 (snd (travel_options (cities eng) (toLowerCase (str (req_message req)))))
                 (fst (travel_options (cities eng) (toLowerCase (str (req_message req)))))
               = Inl e \<longrightarrow>
          generateResponse env eng req
            = Inr \<lparr>rtype = ''error'', rtext = ''Flights lookup failed: '' @ js_message e,
                   rerror = None\<rparr>)"
proof (intro conjI allI impI)
  show "\<exists>r. generateResponse env eng req = Inr r \<and> rtype r \<in> set response_types"
  proof (cases "dispatch env eng req")
    case (Inl err)
    then show ?thesis by (simp add: generateResponse_def response_types_def)
  next
    case (Inr r)
    then show ?thesis using dispatch_type [OF Inr] by (simp add: generateResponse_def)
  qed
next
  fix r
  assume "dispatch env eng req = Inr r"
  then show "generateResponse env eng req = Inr r" by (simp add: generateResponse_def)
next
  fix e
  assume "dispatch env eng req = Inl e"
  then show "generateResponse env eng req
      = Inr \<lparr>rtype = ''error'',
             rtext = ''Sorry, something went wrong while generating a response.'',
             rerror = Some (error_message e)\<rparr>"
    by (simp add: generateResponse_def)
next
  fix i e
  assume "req_intent req = Some i \<and> intent_type i = Some ''show_schedule''
      \<and> getShows env = Inl e"
  then have "dispatch env eng req = Inl e"
    by (simp add: dispatch_def show_schedule_def truthy_def)
  then show "generateResponse env eng req
      = Inr \<lparr>rtype = ''error'',
             rtext = ''Sorry, something went wrong while generating a response.'',
             rerror = Some (error_message e)\<rparr>"
    by (simp add: generateResponse_def)
next
  fix i e
  assume "req_intent req = Some i \<and> intent_type i = Some ''term_lookup''
      \<and> retrieveData env eng (parseMessage eng (str (req_message req))) = Inl e"
  then have "dispatch env eng req = Inl e"
    by (simp add: dispatch_def term_lookup_def truthy_def Let_def)
  then show "generateResponse env eng req
      = Inr \<lparr>rtype = ''error'',
             rtext = ''Sorry, something went wrong while generating a response.'',
             rerror = Some (error_message e)\<rparr>"
    by (simp add: generateResponse_def)
next
  fix i e
  assume "req_intent req = Some i \<and> intent_type i = Some ''travel''
      \<and> formatUpcomingFlights env
           (snd (travel_options (cities eng) (toLowerCase (str (req_message req)))))
           (fst (travel_options (cities eng) (toLowerCase (str (req_message req)))))
         = Inl e"
  then have "dispatch env eng req
      = Inr \<lparr>rtype = ''error'', rtext = ''Flights lookup failed: '' @ js_message e,
             rerror = None\<rparr>"
    by (simp add: dispatch_def travel_def truthy_def Let_def)
  then show "generateResponse env eng req
      = Inr \<lparr>rtype = ''error'', rtext = ''Flights lookup failed: '' @ js_message e,
             rerror = None\<rparr>"
    by (simp add: generateResponse_def)
qed

theorem C7_generateResponse_always_responds_witness:
  "generateResponse offline_platform demo_engine schedule_request
     = Inr \<lparr>rtype = ''error'',
            rtext = ''Sorry, something went wrong while generating a response.'',
            rerror = Some ''connect ECONNREFUSED''\<rparr>
   \<and> generateResponse bad_row_platform demo_engine travel_request
       = Inr \<lparr>rtype = ''error'', rtext = ''Flights lookup failed: Invalid time value'',
              rerror = None\<rparr>
   \<and> generateResponse demo_platform demo_engine travel_request
       = Inr \<lparr>rtype = ''schedule'', rtext = ''I found 0 flights.'', rerror = None\<rparr>"
proof -
  have i1: "req_intent schedule_request = Some (rule_cascade ''what is the schedule'')
      \<and> intent_type (rule_cascade ''what is the schedule'') = Some ''show_schedule''
      \<and> getShows offline_platform = Inl (JsError ''Error'' ''connect ECONNREFUSED'')"
    by code_simp
  have "generateResponse offline_platform demo_engine schedule_request
      = Inr \<lparr>rtype = ''error'',
             rtext = ''Sorry, something went wrong while generating a response.'',
             rerror = Some (error_message (JsError ''Error'' ''connect ECONNREFUSED''))\<rparr>"
    using C7_generateResponse_always_responds [of offline_platform demo_engine schedule_request,
        THEN conjunct2, THEN conjunct2, THEN conjunct2, THEN conjunct1, THEN spec, THEN spec,
        THEN mp, OF i1] .
  also have "\<dots> = Inr \<lparr>rtype = ''error'',
             rtext = ''Sorry, something went wrong while generating a response.'',
             rerror = Some ''connect ECONNREFUSED''\<rparr>"
    by code_simp
  finally have w1: "generateResponse offline_platform demo_engine schedule_request
      = Inr \<lparr>rtype = ''error'',
             rtext = ''Sorry, something went wrong while generating a response.'',
             rerror = Some ''connect ECONNREFUSED''\<rparr>" .
  have i2: "req_intent travel_request = Some (rule_cascade ''flights today'')
      \<and> intent_type (rule_cascade ''flights today'') = Some ''travel''
      \<and> formatUpcomingFlights bad_row_platform
           (snd (travel_options (cities demo_engine) (toLowerCase (str (req_message travel_request)))))
           (fst (travel_options (cities demo_engine) (toLowerCase (str (req_message travel_request)))))
         = Inl (JsError ''RangeError'' ''Invalid time value'')"
    by code_simp
  have "generateResponse bad_row_platform demo_engine travel_request
      = Inr \<lparr>rtype = ''error'',
             rtext = ''Flights lookup failed: '' @ js_message (JsError ''RangeError'' ''Invalid time value''),
             rerror = None\<rparr>"
    using C7_generateResponse_always_responds [of bad_row_platform demo_engine travel_request,
        THEN conjunct2, THEN conjunct2, THEN conjunct2, THEN conjunct2, THEN conjunct2,
        THEN spec, THEN spec, THEN mp, OF i2] .
  also have "\<dots> = Inr \<lparr>rtype = ''error'', rtext = ''Flights lookup failed: Invalid time value'',
             rerror = None\<rparr>"
    by code_simp
  finally have w2: "generateResponse bad_row_platform demo_engine travel_request
      = Inr \<lparr>rtype = ''error'', rtext = ''Flights lookup failed: Invalid time value'',
             rerror = None\<rparr>" .
  have d3: "dispatch demo_platform demo_engine travel_request
      = Inr \<lparr>rtype = ''schedule'', rtext = ''I found 0 flights.'', rerror = None\<rparr>"
    by code_simp
  have w3: "generateResponse demo_platform demo_engine travel_request
      = Inr \<lparr>rtype = ''schedule'', rtext = ''I found 0 flights.'', rerror = None\<rparr>"
    using C7_generateResponse_always_responds [of demo_platform demo_engine travel_request,
        THEN conjunct2, THEN conjunct1, THEN spec, THEN mp, OF d3] .
  show ?thesis
    using w1 w2 w3 by (intro conjI)
qed

lemma truthy_find:
  "'''' \<notin> set cts \<Longrightarrow> truthy (find P cts) = list_ex P cts"
  by (induction cts) (auto simp: truthy_def)

text \<open>
  Claim C10. With a city vocabulary that holds no empty name, the travel handler derives
  its options from the lowercased message by the first test that succeeds, in this
  order: a known city after \<open>from \<close> (\<open>fromCity\<close>, limit 50); a known city after
  \<open>to \<close> (\<open>toCity\<close>, limit 50); the word \<open>next\<close> (\<open>nextOnly\<close>, limit 1); the word
  \<open>today\<close> (\<open>todayOnly\<close>, limit 50); a known city anywhere (\<open>city\<close>, limit 50);
  otherwise no filter and limit 10. At most one of the five filter options is set.
\<close>

theorem C10_travel_options_first_hit:
  assumes "'''' \<notin> set cts"
  shows "travel_options cts nm =
     (if list_ex (\<lambda>c. str_includes nm (''from '' @ c)) cts
        then (flight_defaults\<lparr>fromCity := find (\<lambda>c. str_includes nm (''from '' @ c)) cts\<rparr>, 50)
      else if list_ex (\<lambda>c. str_includes nm (''to '' @ c)) cts
        then (flight_defaults\<lparr>toCity := find (\<lambda>c. str_includes nm (''to '' @ c)) cts\<rparr>, 50)
      else if rx_test rx_next nm then (flight_defaults\<lparr>nextOnly := True\<rparr>, 1)
      else if rx_test rx_today nm then (flight_defaults\<lparr>todayOnly := True\<rparr>, 50)
      else if list_ex (\<lambda>c. str_includes nm c) cts
        then (flight_defaults\<lparr>city := find (\<lambda>c. str_includes nm c) cts\<rparr>, 50)
      else (flight_defaults, 10))
   \<and> filters_set (fst (travel_options cts nm)) \<le> 1"
proof -
  have eq: "travel_options cts nm =
     (if list_ex (\<lambda>c. str_includes nm (''from '' @ c)) cts
        then (flight_defaults\<lparr>fromCity := find (\<lambda>c. str_includes nm (''from '' @ c)) cts\<rparr>, 50)
      else if list_ex (\<lambda>c. str_includes nm (''to '' @ c)) cts
        then (flight_defaults\<lparr>toCity := find (\<lambda>c. str_includes nm (''to '' @ c)) cts\<rparr>, 50)
      else if rx_test rx_next nm then (flight_defaults\<lparr>nextOnly := True\<rparr>, 1)
      else if rx_test rx_today nm then (flight_defaults\<lparr>todayOnly := True\<rparr>, 50)
      else if list_ex (\<lambda>c. str_includes nm c) cts
        then (flight_defaults\<lparr>city := find (\<lambda>c. str_includes nm c) cts\<rparr>, 50)
      else (flight_defaults, 10))"
    by (simp add: travel_options_def Let_def truthy_find [OF assms])
  have "filters_set (fst (travel_options cts nm)) \<le> 1"
    unfolding eq by (simp add: filters_set_def flight_defaults_def truthy_def)
  with eq show ?thesis by simp
qed

theorem C10_travel_options_first_hit_witness:
  "travel_options (cities demo_engine) ''flights from sydney to auckland''
     = (flight_defaults\<lparr>fromCity := Some ''sydney''\<rparr>, 50)
   \<and> filters_set (fst (travel_options (cities demo_engine) ''flights from sydney to auckland'')) \<le> 1"
proof -
  have a: "'''' \<notin> set (cities demo_engine)"
    by (simp add: demo_engine_def)
  note inst = C10_travel_options_first_hit [OF a, of "''flights from sydney to auckland''"]
  have "travel_options (cities demo_engine) ''flights from sydney to auckland'' =
     (if list_ex (\<lambda>c. str_includes ''flights from sydney to auckland'' (''from '' @ c)) (cities demo_engine)
        then (flight_defaults\<lparr>fromCity :=
                find (\<lambda>c. str_includes ''flights from sydney to auckland'' (''from '' @ c)) (cities demo_engine)\<rparr>, 50)
      else if list_ex (\<lambda>c. str_includes ''flights from sydney to auckland'' (''to '' @ c)) (cities demo_engine)
        then (flight_defaults\<lparr>toCity :=
                find (\<lambda>c. str_includes ''flights from sydney to auckland'' (''to '' @ c)) (cities demo_engine)\<rparr>, 50)
      else if rx_test rx_next ''flights from sydney to auckland'' then (flight_defaults\<lparr>nextOnly := True\<rparr>, 1)
      else if rx_test rx_today ''flights from sydney to auckland'' then (flight_defaults\<lparr>todayOnly := True\<rparr>, 50)
      else if list_ex (\<lambda>c. str_includes ''flights from sydney to auckland'' c) (cities demo_engine)
        then (flight_defaults\<lparr>city :=
                find (\<lambda>c. str_includes ''flights from sydney to auckland'' c) (cities demo_engine)\<rparr>, 50)
      else (flight_defaults, 10))"
    using inst by (rule conjunct1)
  also have "\<dots> = (flight_defaults\<lparr>fromCity := Some ''sydney''\<rparr>, 50)"
    by code_simp
  finally have r: "travel_options (cities demo_engine) ''flights from sydney to auckland''
     = (flight_defaults\<lparr>fromCity := Some ''sydney''\<rparr>, 50)" .
  have f: "filters_set (fst (travel_options (cities demo_engine) ''flights from sydney to auckland'')) \<le> 1"
    using inst by (rule conjunct2)
  show ?thesis using r f by (rule conjI)
qed

end
